theory Spec2Isabelle
  imports Main
begin

section \<open>Values of the configuration trees\<close>

text \<open>
  The configuration objects of \<^verbatim>\<open>packages/shared/src/devServer.ts\<close> are plain JavaScript
  values. An object is an association list in insertion order; a lookup takes the
  first entry of a key. Functions are opaque and carry only a name.
\<close>

datatype jsval =
    Undefined
  | Null
  | Bool bool
  | Num int
  | Str string
  | Fn string
  | Arr "jsval list"
  | Obj "(string \<times> jsval) list"

text \<open>JavaScript truthiness, as used by \<^verbatim>\<open>||\<close>, \<^verbatim>\<open>!\<close> and \<^verbatim>\<open>if\<close>.\<close>

fun truthy :: "jsval \<Rightarrow> bool" where
  "truthy Undefined = False"
| "truthy Null = False"
| "truthy (Bool b) = b"
| "truthy (Num n) = (n \<noteq> 0)"
| "truthy (Str s) = (s \<noteq> [])"
| "truthy (Fn f) = True"
| "truthy (Arr xs) = True"
| "truthy (Obj kvs) = True"

text \<open>
  Reading along a path of keys, as \<^verbatim>\<open>v?.k1?.k2\<close> does: \<open>undefined\<close> when the path leaves
  the tree.
\<close>

fun get :: "jsval \<Rightarrow> string list \<Rightarrow> jsval" where
  "get v [] = v"
| "get (Obj kvs) (k # ps) = (case map_of kvs k of None \<Rightarrow> Undefined | Some v \<Rightarrow> get v ps)"
| "get v (k # ps) = Undefined"

text \<open>A leaf is any value that is not a plain object; a defined leaf is not \<open>undefined\<close>.\<close>

fun is_leaf :: "jsval \<Rightarrow> bool" where
  "is_leaf (Obj kvs) = False"
| "is_leaf v = True"

definition defined_leaf :: "jsval \<Rightarrow> bool" where
  "defined_leaf v = (is_leaf v \<and> v \<noteq> Undefined)"

text \<open>
  An override leaves a path untouched when, walking the path, it runs into a missing key
  or into \<open>undefined\<close> before or at the end of the path.
\<close>

fun untouched :: "jsval \<Rightarrow> string list \<Rightarrow> bool" where
  "untouched Undefined ps = True"
| "untouched (Obj kvs) [] = False"
| "untouched (Obj kvs) (k # ps) = (case map_of kvs k of None \<Rightarrow> True | Some v \<Rightarrow> untouched v ps)"
| "untouched v ps = False"

section \<open>The layered option merger\<close>

text \<open>
  Modelled from the spec: \<^verbatim>\<open>deepmerge\<close> is the npm package imported by devServer.ts and is
  not part of the sources. Section 4.1 of the specification fixes what the merge function
  does with the fields of its two arguments: plain-object fields combine key-wise
  recursively, arrays are replaced wholesale by the override's array, an override leaf wins
  when it is defined, and \<open>undefined\<close> in the override never overwrites a default.
  \<open>merge_value\<close> merges the two values of one field, \<open>merge_fields\<close> the fields of two
  objects.
\<close>

fun merge_value :: "jsval \<Rightarrow> jsval \<Rightarrow> jsval"
  and merge_fields :: "(string \<times> jsval) list \<Rightarrow> (string \<times> jsval) list \<Rightarrow> (string \<times> jsval) list"
where
  "merge_value (Obj a) (Obj b) =
     Obj (merge_fields a b @ filter (\<lambda>kv. map_of a (fst kv) = None) b)"
| "merge_value (Obj a) Undefined = Obj a"
| "merge_value (Obj a) Null = Null"
| "merge_value (Obj a) (Bool x) = Bool x"
| "merge_value (Obj a) (Num x) = Num x"
| "merge_value (Obj a) (Str x) = Str x"
| "merge_value (Obj a) (Fn x) = Fn x"
| "merge_value (Obj a) (Arr x) = Arr x"
| "merge_value Undefined y = y"
| "merge_value Null y = (if y = Undefined then Null else y)"
| "merge_value (Bool x) y = (if y = Undefined then Bool x else y)"
| "merge_value (Num x) y = (if y = Undefined then Num x else y)"
| "merge_value (Str x) y = (if y = Undefined then Str x else y)"
| "merge_value (Fn x) y = (if y = Undefined then Fn x else y)"
| "merge_value (Arr x) y = (if y = Undefined then Arr x else y)"
| "merge_fields [] b = []"
| "merge_fields (kv # a) b =
     (fst kv, case map_of b (fst kv) of None \<Rightarrow> snd kv | Some w \<Rightarrow> merge_value (snd kv) w)
       # merge_fields a b"

text \<open>
  Modelled from the spec: the call \<^verbatim>\<open>deepmerge(defaults, overrides)\<close> itself. Section 4.1:
  the overrides may omit any subset of fields. An override that is a plain object
  contributes its fields; an override that is no plain object (\<^verbatim>\<open>true\<close>, say, which
  \<^verbatim>\<open>serverOptions.dev\<close> may be) has no fields and leaves the defaults as they are.
\<close>

fun deepmerge :: "jsval \<Rightarrow> jsval \<Rightarrow> jsval" where
  "deepmerge defaults (Obj b) = merge_value defaults (Obj b)"
| "deepmerge defaults overrides = defaults"

text \<open>
  An override leaves a key path untouched when it has no fields at all, or when its
  fields do (see \<open>untouched\<close>).
\<close>

fun leaves_untouched :: "jsval \<Rightarrow> string list \<Rightarrow> bool" where
  "leaves_untouched (Obj kvs) ps = untouched (Obj kvs) ps"
| "leaves_untouched v ps = True"

text \<open>
  Modelled from the spec: \<^verbatim>\<open>mergeChainedOptions\<close> (mergeChainedOptions.ts) is not part of
  the sources. Section 4.1: a second call layers the tool-level overrides on top of the
  first merge result using the same merge function; absent overrides leave the defaults.
\<close>

definition mergeChainedOptions ::
  "jsval \<Rightarrow> jsval option \<Rightarrow> (jsval \<Rightarrow> jsval \<Rightarrow> jsval) \<Rightarrow> jsval" where
  "mergeChainedOptions defaults options mergeFn =
     (case options of None \<Rightarrow> defaults | Some opts \<Rightarrow> mergeFn defaults opts)"

section \<open>Configuration records\<close>

text \<open>\<^verbatim>\<open>rsbuildConfig.dev\<close>: the fields read by devServer.ts; \<open>None\<close> is an unset field.\<close>

record dev_config =
  dev_port :: "nat option"
  dev_hmr :: "bool option"
  dev_https :: "jsval"
  dev_host :: "string option"

record rsbuild_config =
  dev :: "dev_config option"
  tools_devServer :: "jsval option"

text \<open>\<^verbatim>\<open>StartDevServerOptions['serverOptions']\<close>: \<open>dev\<close> is a boolean, an object or unset.\<close>

record server_options =
  so_dev :: "jsval option"

text \<open>\<^verbatim>\<open>Number.prototype.toString\<close> on a non-negative integer.\<close>

fun toString :: "nat \<Rightarrow> string" where
  "toString n =
     (if n < 10 then [''0123456789'' ! n]
      else toString (n div 10) @ [''0123456789'' ! (n mod 10)])"

text \<open>\<^verbatim>\<open>rsbuildConfig.dev?.hmr ?? true\<close>\<close>

definition hmr_or_true :: "rsbuild_config \<Rightarrow> bool" where
  "hmr_or_true cfg =
     (case dev cfg of None \<Rightarrow> True
      | Some d \<Rightarrow> (case dev_hmr d of None \<Rightarrow> True | Some b \<Rightarrow> b))"

text \<open>The object literal that is the first argument of the first \<^verbatim>\<open>deepmerge\<close> call.\<close>

definition builtinDevConfig :: "rsbuild_config \<Rightarrow> nat \<Rightarrow> jsval" where
  "builtinDevConfig cfg port =
     Obj [(''hot'', Bool (hmr_or_true cfg)),
          (''watch'', Bool True),
          (''client'', Obj [(''port'', Str (toString port))]),
          (''port'', Num (int port)),
          (''liveReload'', Bool (hmr_or_true cfg)),
          (''devMiddleware'', Obj [(''writeToDisk'', Fn ''writeToDisk'')]),
          (''https'', (case dev cfg of None \<Rightarrow> Undefined | Some d \<Rightarrow> dev_https d))]"

text \<open>
  Line 71: \<^verbatim>\<open>serverOptions.dev || {}\<close>. A falsy \<^verbatim>\<open>serverOptions.dev\<close> (unset, \<^verbatim>\<open>false\<close>) is
  replaced by the empty object; a truthy one, \<^verbatim>\<open>true\<close> included, is passed on as it is.
\<close>

definition serverDevOverride :: "server_options \<Rightarrow> jsval" where
  "serverDevOverride so =
     (case so_dev so of None \<Rightarrow> Obj []
      | Some v \<Rightarrow> if truthy v then v else Obj [])"

definition defaultDevConfig :: "rsbuild_config \<Rightarrow> server_options \<Rightarrow> nat \<Rightarrow> jsval" where
  "defaultDevConfig cfg so port = deepmerge (builtinDevConfig cfg port) (serverDevOverride so)"

definition getDevServerOptions :: "rsbuild_config \<Rightarrow> server_options \<Rightarrow> nat \<Rightarrow> jsval" where
  "getDevServerOptions cfg so port =
     mergeChainedOptions (defaultDevConfig cfg so port) (tools_devServer cfg) deepmerge"

text \<open>The third tier of the merge: \<^verbatim>\<open>rsbuildConfig.tools?.devServer\<close>.\<close>

definition toolsOverride :: "rsbuild_config \<Rightarrow> jsval" where
  "toolsOverride cfg = (case tools_devServer cfg of None \<Rightarrow> Undefined | Some t \<Rightarrow> t)"

section \<open>Promises, hooks and the server capability\<close>

text \<open>A JavaScript \<^verbatim>\<open>Error\<close> with its message.\<close>

datatype error = Error string

text \<open>The entries returned by \<^verbatim>\<open>getAddressUrls\<close>.\<close>

record url_entry =
  url :: string
  label :: string

text \<open>A JavaScript value that is not an array: \<^verbatim>\<open>Array.isArray\<close> is false of it.\<close>

datatype non_array =
    NaUndefined
  | NaNull
  | NaBool bool
  | NaNum int
  | NaStr string
  | NaFn string
  | NaObj "(string \<times> jsval) list"

text \<open>
  What a caller's \<^verbatim>\<open>printURLs\<close> function returns: an array of entries
  (\<^verbatim>\<open>Array.isArray\<close> holds) or a value that is not an array.
\<close>

datatype printURLs_return = RetArray "url_entry list" | RetOther non_array

text \<open>The \<^verbatim>\<open>printURLs\<close> option: a boolean, or a function that may itself throw.\<close>

datatype printURLs_option =
    PrintFlag bool
  | PrintFn "url_entry list \<Rightarrow> error + printURLs_return"

text \<open>
  What \<^verbatim>\<open>server.listen(options, callback)\<close> does: it throws synchronously, it never
  invokes the callback, or it invokes the callback once with an error or with none. What
  it does with the promise that the callback returns cannot reach \<^verbatim>\<open>startDevServer\<close>, which
  passes no way to reject.
\<close>

datatype listen_behaviour =
    ListenThrows error
  | ListenSilent
  | ListenCallback "error option"

text \<open>
  \<^verbatim>\<open>ServerApi\<close>: an opaque handle, the result of \<^verbatim>\<open>init()\<close> (\<open>Some e\<close> when its promise
  rejects) and the behaviour of \<^verbatim>\<open>listen\<close>.
\<close>

record server_api =
  server_handle :: nat
  init_result :: "error option"
  listen_result :: listen_behaviour

datatype hook_name = OnBeforeStartDevServer | OnAfterStartDevServer

text \<open>
  A registered hook callback: it receives the payload (\<open>None\<close> for no payload, \<open>Some port\<close>
  for \<^verbatim>\<open>{ port }\<close>) and its promise fulfils (\<open>None\<close>) or rejects (\<open>Some e\<close>).
\<close>

type_synonym hook_callback = "nat option \<Rightarrow> error option"

text \<open>The observable steps of one run, in the order they happen.\<close>

datatype event =
    EnvSet string string
  | GetPort nat bool "bool option"
  | PrintURLsCalled "url_entry list"
  | PrintServerURLs "url_entry list"
  | CreateDevServer nat
  | HookCall hook_name "nat option"
  | HookCallback hook_name nat "nat option"
  | Debug string
  | ServerInit
  | ServerListen jsval nat
  | ListenCallbackRun "error option"
  | ResolveCalled

text \<open>
  Modelled from the spec: \<^verbatim>\<open>createAsyncHook\<close> (createHook.ts) is not part of the sources.
  Section 4.4: \<^verbatim>\<open>call\<close> awaits each registered callback strictly in registration order; a
  callback that fails aborts the remaining sequence and propagates the failure to the
  caller of \<^verbatim>\<open>call\<close>.
\<close>

fun run_callbacks ::
  "hook_name \<Rightarrow> hook_callback list \<Rightarrow> nat \<Rightarrow> nat option \<Rightarrow> event list \<times> error option" where
  "run_callbacks h [] i payload = ([], None)"
| "run_callbacks h (cb # cbs) i payload =
     (case cb payload of
        Some e \<Rightarrow> ([HookCallback h i payload], Some e)
      | None \<Rightarrow>
          (case run_callbacks h cbs (Suc i) payload of
             (evs, r) \<Rightarrow> (HookCallback h i payload # evs, r)))"

definition hook_call ::
  "hook_name \<Rightarrow> hook_callback list \<Rightarrow> nat option \<Rightarrow> event list \<times> error option" where
  "hook_call h cbs payload =
     (case run_callbacks h cbs 0 payload of (evs, r) \<Rightarrow> (HookCall h payload # evs, r))"

section \<open>The dev-server lifecycle controller\<close>

text \<open>\<^verbatim>\<open>options.context.devServer\<close>, as assigned by \<^verbatim>\<open>startDevServer\<close>.\<close>

record dev_server_info =
  hostname :: jsval
  ds_port :: nat
  ds_https :: bool
  ds_open :: jsval

text \<open>\<^verbatim>\<open>DevServerContext\<close>: the resolved configuration, the two hooks and the server info.\<close>

record dev_server_context =
  config :: rsbuild_config
  onBeforeStartDevServerHook :: "hook_callback list"
  onAfterStartDevServerHook :: "hook_callback list"
  devServer :: "dev_server_info option"

text \<open>
  The third parameter of \<^verbatim>\<open>startDevServer\<close>; \<open>None\<close> is an omitted field, which takes the
  default of the destructuring pattern. The \<^verbatim>\<open>logger\<close> field is left out: what is logged is
  recorded in the trace of the run, whichever logger receives it.
\<close>

record start_options =
  opt_open :: jsval
  opt_compiler :: jsval
  opt_printURLs :: "printURLs_option option"
  opt_strictPort :: "bool option"
  opt_serverOptions :: "server_options option"
  opt_getPortSilently :: "bool option"

text \<open>
  The imports of devServer.ts that are not part of the sources, taken as parameters:
  \<^verbatim>\<open>getPort\<close> (port.ts), \<^verbatim>\<open>getAddressUrls\<close> (url.ts) and the two constants of
  constants.ts.
\<close>

record externals =
  getPort :: "nat \<Rightarrow> bool \<Rightarrow> bool option \<Rightarrow> error + nat"
  getAddressUrls :: "string \<Rightarrow> nat \<Rightarrow> string option \<Rightarrow> url_entry list"
  DEFAULT_PORT :: nat
  DEFAULT_DEV_HOST :: string

text \<open>The injected server factory: \<^verbatim>\<open>createDevServer(options, port, serverOptions, compiler)\<close>.\<close>

type_synonym server_factory =
  "dev_server_context \<Rightarrow> nat \<Rightarrow> server_options \<Rightarrow> jsval \<Rightarrow> error + server_api"

text \<open>\<^verbatim>\<open>StartServerResult\<close>\<close>

record start_server_result =
  res_port :: nat
  res_urls :: "string list"
  res_server :: server_api

text \<open>
  The state of the promise returned by \<^verbatim>\<open>startDevServer\<close> once the run has come to rest:
  resolved, rejected, or never settled. A promise that never settles carries the rejection
  of the listen callback's own promise, if any, which no handler receives.
\<close>

datatype start_outcome =
    Resolved start_server_result
  | Rejected error
  | Pending "error option"

record run =
  outcome :: start_outcome
  trace :: "event list"
  env_after :: "string \<Rightarrow> string option"
  context_after :: dev_server_context

text \<open>Lines 122-124: \<^verbatim>\<open>if (!process.env.NODE_ENV) process.env.NODE_ENV = 'development'\<close>.\<close>

definition node_env_unset :: "(string \<Rightarrow> string option) \<Rightarrow> bool" where
  "node_env_unset env = (case env ''NODE_ENV'' of None \<Rightarrow> True | Some v \<Rightarrow> v = [])"

definition set_node_env :: "(string \<Rightarrow> string option) \<Rightarrow> (string \<Rightarrow> string option) \<times> event list" where
  "set_node_env env =
     (if node_env_unset env
      then (env(''NODE_ENV'' \<mapsto> ''development''), [EnvSet ''NODE_ENV'' ''development''])
      else (env, []))"

text \<open>Line 128: \<^verbatim>\<open>rsbuildConfig.dev?.port || DEFAULT_PORT\<close>.\<close>

definition requested_port :: "externals \<Rightarrow> rsbuild_config \<Rightarrow> nat" where
  "requested_port ext cfg =
     (case dev cfg of
        None \<Rightarrow> DEFAULT_PORT ext
      | Some d \<Rightarrow>
          (case dev_port d of
             None \<Rightarrow> DEFAULT_PORT ext
           | Some p \<Rightarrow> if p \<noteq> 0 then p else DEFAULT_PORT ext))"

text \<open>\<^verbatim>\<open>typeof v === 'object'\<close>\<close>

fun typeof_object :: "jsval \<Rightarrow> bool" where
  "typeof_object Null = True"
| "typeof_object (Arr xs) = True"
| "typeof_object (Obj kvs) = True"
| "typeof_object v = False"

definition so_dev_value :: "server_options \<Rightarrow> jsval" where
  "so_dev_value so = (case so_dev so of None \<Rightarrow> Undefined | Some v \<Rightarrow> v)"

text \<open>Lines 133-136.\<close>

definition resolve_host :: "externals \<Rightarrow> server_options \<Rightarrow> jsval" where
  "resolve_host ext so =
     (if typeof_object (so_dev_value so) \<and> truthy (get (so_dev_value so) [''host''])
      then get (so_dev_value so) [''host'']
      else Str (DEFAULT_DEV_HOST ext))"

text \<open>Lines 138-141.\<close>

definition resolve_https :: "server_options \<Rightarrow> bool" where
  "resolve_https so =
     (if typeof_object (so_dev_value so) \<and> truthy (get (so_dev_value so) [''https''])
      then truthy (get (so_dev_value so) [''https''])
      else False)"

text \<open>
  Lines 153-163: the \<^verbatim>\<open>printURLs\<close> block. The result is the error thrown, or the events and
  the URL list that the rest of the run uses.
\<close>

definition print_urls_stage ::
  "printURLs_option \<Rightarrow> url_entry list \<Rightarrow> event list \<times> (error + url_entry list)" where
  "print_urls_stage p urls =
     (case p of
        PrintFlag b \<Rightarrow> if b then ([PrintServerURLs urls], Inr urls) else ([], Inr urls)
      | PrintFn f \<Rightarrow>
          (case f urls of
             Inl e \<Rightarrow> ([PrintURLsCalled urls], Inl e)
           | Inr (RetOther v) \<Rightarrow>
               ([PrintURLsCalled urls],
                Inl (Error ''Please return an array in the `printURLs` function.''))
           | Inr (RetArray us) \<Rightarrow> ([PrintURLsCalled urls, PrintServerURLs us], Inr us)))"

text \<open>
  Lines 178-191: the \<^verbatim>\<open>async\<close> callback handed to \<^verbatim>\<open>listen\<close>. It returns its events, the
  rejection of its own promise (if it throws or the hook call rejects) and the value given
  to \<^verbatim>\<open>resolve\<close> (if it gets that far).
\<close>

definition listen_callback ::
  "dev_server_context \<Rightarrow> nat \<Rightarrow> url_entry list \<Rightarrow> server_api \<Rightarrow> error option \<Rightarrow>
     event list \<times> error option \<times> start_server_result option" where
  "listen_callback ctx port urls server err =
     (case err of
        Some e \<Rightarrow> ([], Some e, None)
      | None \<Rightarrow>
          (case hook_call OnAfterStartDevServer (onAfterStartDevServerHook ctx) (Some port) of
             (evs, Some e) \<Rightarrow> (Debug ''listen dev server done'' # evs, Some e, None)
           | (evs, None) \<Rightarrow>
               (Debug ''listen dev server done'' # evs @ [ResolveCalled], None,
                Some \<lparr>res_port = port, res_urls = map url urls, res_server = server\<rparr>)))"

text \<open>
  Lines 172-193: \<^verbatim>\<open>new Promise((resolve) => server.listen(..., callback))\<close>. The executor
  receives \<^verbatim>\<open>resolve\<close> only: a synchronous throw of \<^verbatim>\<open>listen\<close> rejects the promise, and
  nothing else can reject it.
\<close>

definition listen_promise ::
  "dev_server_context \<Rightarrow> jsval \<Rightarrow> nat \<Rightarrow> url_entry list \<Rightarrow> server_api \<Rightarrow>
     event list \<times> start_outcome" where
  "listen_promise ctx host port urls server =
     (case listen_result server of
        ListenThrows e \<Rightarrow> ([ServerListen host port], Rejected e)
      | ListenSilent \<Rightarrow> ([ServerListen host port], Pending None)
      | ListenCallback err \<Rightarrow>
          (case listen_callback ctx port urls server err of
             (evs, rejection, Some res) \<Rightarrow>
               (ServerListen host port # ListenCallbackRun err # evs, Resolved res)
           | (evs, rejection, None) \<Rightarrow>
               (ServerListen host port # ListenCallbackRun err # evs, Pending rejection)))"

text \<open>Lines 165-193: from the server factory to the returned promise.\<close>

definition server_stage ::
  "server_factory \<Rightarrow> dev_server_context \<Rightarrow> start_options \<Rightarrow> server_options \<Rightarrow>
     jsval \<Rightarrow> nat \<Rightarrow> url_entry list \<Rightarrow> event list \<times> start_outcome" where
  "server_stage createDevServer ctx opts so host port urls =
     (case createDevServer ctx port so (opt_compiler opts) of
        Inl e \<Rightarrow> ([CreateDevServer port], Rejected e)
      | Inr server \<Rightarrow>
          (case hook_call OnBeforeStartDevServer (onBeforeStartDevServerHook ctx) None of
             (evs, Some e) \<Rightarrow> (CreateDevServer port # evs, Rejected e)
           | (evs, None) \<Rightarrow>
               (case init_result server of
                  Some e \<Rightarrow>
                    (CreateDevServer port # evs @ [Debug ''listen dev server'', ServerInit],
                     Rejected e)
                | None \<Rightarrow>
                    (case listen_promise ctx host port urls server of
                       (evs', out) \<Rightarrow>
                         (CreateDevServer port # evs
                            @ [Debug ''listen dev server'', ServerInit] @ evs',
                          out)))))"

text \<open>The defaults of the destructuring pattern, lines 108-118.\<close>

definition effective_printURLs :: "start_options \<Rightarrow> printURLs_option" where
  "effective_printURLs opts = (case opt_printURLs opts of None \<Rightarrow> PrintFlag True | Some p \<Rightarrow> p)"

definition effective_strictPort :: "start_options \<Rightarrow> bool" where
  "effective_strictPort opts = (case opt_strictPort opts of None \<Rightarrow> False | Some b \<Rightarrow> b)"

definition effective_serverOptions :: "start_options \<Rightarrow> server_options" where
  "effective_serverOptions opts =
     (case opt_serverOptions opts of None \<Rightarrow> \<lparr>so_dev = None\<rparr> | Some s \<Rightarrow> s)"

text \<open>Lines 143-148: \<^verbatim>\<open>options.context.devServer = { hostname, port, https, open }\<close>.\<close>

definition bound_context ::
  "externals \<Rightarrow> dev_server_context \<Rightarrow> start_options \<Rightarrow> nat \<Rightarrow> dev_server_context" where
  "bound_context ext ctx opts port =
     ctx\<lparr>devServer :=
           Some \<lparr>hostname = resolve_host ext (effective_serverOptions opts),
                 ds_port = port,
                 ds_https = resolve_https (effective_serverOptions opts),
                 ds_open = opt_open opts\<rparr>\<rparr>"

text \<open>Lines 150-151: \<^verbatim>\<open>getAddressUrls(protocol, port, rsbuildConfig.dev?.host)\<close>.\<close>

definition computed_urls ::
  "externals \<Rightarrow> dev_server_context \<Rightarrow> start_options \<Rightarrow> nat \<Rightarrow> url_entry list" where
  "computed_urls ext ctx opts port =
     getAddressUrls ext
       (if resolve_https (effective_serverOptions opts) then ''https'' else ''http'')
       port
       (case dev (config ctx) of None \<Rightarrow> None | Some d \<Rightarrow> dev_host d)"

text \<open>Lines 133-193: everything after the port has been resolved.\<close>

definition after_port ::
  "externals \<Rightarrow> server_factory \<Rightarrow> dev_server_context \<Rightarrow> start_options \<Rightarrow> nat \<Rightarrow>
     event list \<times> start_outcome \<times> dev_server_context" where
  "after_port ext createDevServer ctx opts port =
     (case print_urls_stage (effective_printURLs opts) (computed_urls ext ctx opts port) of
        (evs, Inl e) \<Rightarrow> (evs, Rejected e, bound_context ext ctx opts port)
      | (evs, Inr urls) \<Rightarrow>
          (case server_stage createDevServer (bound_context ext ctx opts port) opts
                  (effective_serverOptions opts)
                  (resolve_host ext (effective_serverOptions opts)) port urls of
             (evs', out) \<Rightarrow> (evs @ evs', out, bound_context ext ctx opts port)))"

text \<open>\<^verbatim>\<open>startDevServer\<close>, lines 96-194.\<close>

definition startDevServer ::
  "externals \<Rightarrow> server_factory \<Rightarrow> dev_server_context \<Rightarrow> start_options \<Rightarrow>
     (string \<Rightarrow> string option) \<Rightarrow> run" where
  "startDevServer ext createDevServer ctx opts env =
     (case set_node_env env of
        (env', evs0) \<Rightarrow>
          (let requested = requested_port ext (config ctx);
               ev_port = GetPort requested (effective_strictPort opts) (opt_getPortSilently opts)
           in case getPort ext requested (effective_strictPort opts) (opt_getPortSilently opts) of
                Inl e \<Rightarrow>
                  \<lparr>outcome = Rejected e, trace = evs0 @ [ev_port], env_after = env',
                   context_after = ctx\<rparr>
              | Inr port \<Rightarrow>
                  (case after_port ext createDevServer ctx opts port of
                     (evs, out, ctx') \<Rightarrow>
                       \<lparr>outcome = out, trace = evs0 @ [ev_port] @ evs, env_after = env',
                        context_after = ctx'\<rparr>)))"

section \<open>The compiler-event bridge\<close>

text \<open>
  \<^verbatim>\<open>CompilerTapFn\<close>: a registration point is the list of its taps, each a name and a
  callback, in registration order; \<^verbatim>\<open>tap(name, cb)\<close> appends.
\<close>

type_synonym 'cb tap_point = "(string \<times> 'cb) list"

definition tap :: "'cb tap_point \<Rightarrow> string \<Rightarrow> 'cb \<Rightarrow> 'cb tap_point" where
  "tap h n cb = h @ [(n, cb)]"

record 'cb compiler_hooks =
  hook_compile :: "'cb tap_point"
  hook_invalid :: "'cb tap_point"
  hook_done :: "'cb tap_point"

record 'cb compiler =
  compiler_name :: "string option"
  hooks :: "'cb compiler_hooks"

text \<open>\<^verbatim>\<open>ServerCallbacks\<close>\<close>

record 'cb server_callbacks =
  onInvalid :: 'cb
  onDone :: 'cb

text \<open>\<^verbatim>\<open>setupServerHooks\<close>, lines 201-221; the compiler is returned with its taps.\<close>

definition setupServerHooks :: "'cb compiler \<Rightarrow> 'cb server_callbacks \<Rightarrow> 'cb compiler" where
  "setupServerHooks c hookCallbacks =
     (if compiler_name c = Some ''server'' then c
      else
        c\<lparr>hooks :=
            \<lparr>hook_compile = tap (hook_compile (hooks c)) ''modern-dev-server'' (onInvalid hookCallbacks),
             hook_invalid = tap (hook_invalid (hooks c)) ''modern-dev-server'' (onInvalid hookCallbacks),
             hook_done = tap (hook_done (hooks c)) ''modern-dev-server'' (onDone hookCallbacks)\<rparr>\<rparr>)"

section \<open>The command-line entry: \<^verbatim>\<open>init\<close>\<close>

text \<open>\<^verbatim>\<open>CommonOptions\<close> of \<^verbatim>\<open>packages/core/src/cli/commands.ts\<close>.\<close>

record common_options =
  co_config :: "string option"
  co_envMode :: "string option"
  co_open :: jsval
  co_host :: "string option"
  co_port :: "nat option"

text \<open>What \<^verbatim>\<open>loadEnv\<close> returns.\<close>

record loaded_env =
  filePaths :: "string list"
  publicVars :: "(string \<times> jsval) list"
  cleanup :: nat

text \<open>The fields of the loaded configuration that \<^verbatim>\<open>init\<close> reads or writes.\<close>

record source_config =
  source_define :: "(string \<times> jsval) list option"

record dev_cli_config =
  startUrl :: jsval

record server_cli_config =
  server_host :: "string option"
  server_port :: "nat option"

record loaded_config =
  cfg_source :: "source_config option"
  cfg_dev :: "dev_cli_config option"
  cfg_server :: "server_cli_config option"

text \<open>
  The collaborators of \<^verbatim>\<open>init\<close> that are not part of the sources, taken as parameters. Each
  one that can throw or reject returns its error as a value. \<^verbatim>\<open>createRsbuild\<close> returns an
  opaque handle of the instance.
\<close>

record init_world =
  cwd :: string
  loadEnv :: "string \<Rightarrow> string option \<Rightarrow> error + loaded_env"
  isDev :: bool
  loadConfig :: "string \<Rightarrow> string option \<Rightarrow> string option \<Rightarrow> error + (loaded_config \<times> string option)"
  argv2 :: "string option"
  watchFiles :: "string list \<Rightarrow> error option"
  importCreateRsbuild :: "error option"
  createRsbuild :: "string \<Rightarrow> loaded_config \<Rightarrow> error + nat"

text \<open>
  The module-level \<^verbatim>\<open>commonOpts\<close>, the errors handed to \<^verbatim>\<open>logger.error\<close>, the cleanups
  registered with \<^verbatim>\<open>onBeforeRestartServer\<close> and the file lists handed to \<^verbatim>\<open>watchFiles\<close>.
\<close>

record cli_state =
  commonOpts :: common_options
  logged_errors :: "error list"
  restart_cleanups :: "nat list"
  watched :: "string list list"

text \<open>The object spread \<^verbatim>\<open>{ ...a, ...b }\<close>.\<close>

definition spread :: "(string \<times> jsval) list \<Rightarrow> (string \<times> jsval) list \<Rightarrow> (string \<times> jsval) list" where
  "spread a b =
     map (\<lambda>kv. (fst kv, case map_of b (fst kv) of None \<Rightarrow> snd kv | Some w \<Rightarrow> w)) a
       @ filter (\<lambda>kv. map_of a (fst kv) = None) b"

text \<open>Lines 74-93: the command-line overrides written into the loaded configuration.\<close>

definition apply_common_options :: "common_options \<Rightarrow> loaded_env \<Rightarrow> loaded_config \<Rightarrow> loaded_config" where
  "apply_common_options co envs cfg0 =
     (let src = (case cfg_source cfg0 of None \<Rightarrow> \<lparr>source_define = None\<rparr> | Some s \<Rightarrow> s);
          cfg1 = cfg0\<lparr>cfg_source :=
                   Some (src\<lparr>source_define :=
                     Some (spread (publicVars envs)
                            (case source_define src of None \<Rightarrow> [] | Some d \<Rightarrow> d))\<rparr>)\<rparr>;
          cfg2 = (if truthy (co_open co)
                     \<and> \<not> truthy (case cfg_dev cfg1 of None \<Rightarrow> Undefined | Some d \<Rightarrow> startUrl d)
                  then cfg1\<lparr>cfg_dev :=
                         Some ((case cfg_dev cfg1 of None \<Rightarrow> \<lparr>startUrl = Undefined\<rparr> | Some d \<Rightarrow> d)
                                 \<lparr>startUrl := co_open co\<rparr>)\<rparr>
                  else cfg1);
          cfg3 = (case co_host co of
                    None \<Rightarrow> cfg2
                  | Some h \<Rightarrow>
                      if h \<noteq> [] then
                        cfg2\<lparr>cfg_server :=
                          Some ((case cfg_server cfg2 of
                                   None \<Rightarrow> \<lparr>server_host = None, server_port = None\<rparr>
                                 | Some s \<Rightarrow> s)\<lparr>server_host := Some h\<rparr>)\<rparr>
                      else cfg2)
      in (case co_port co of
            None \<Rightarrow> cfg3
          | Some p \<Rightarrow>
              if p \<noteq> 0 then
                cfg3\<lparr>cfg_server :=
                  Some ((case cfg_server cfg3 of
                           None \<Rightarrow> \<lparr>server_host = None, server_port = None\<rparr>
                         | Some s \<Rightarrow> s)\<lparr>server_port := Some p\<rparr>)\<rparr>
              else cfg3))"

text \<open>Lines 62-98: the \<^verbatim>\<open>try\<close> block from \<^verbatim>\<open>process.argv[2]\<close> on.\<close>

definition init_after_config ::
  "init_world \<Rightarrow> loaded_env \<Rightarrow> loaded_config \<Rightarrow> string option \<Rightarrow> cli_state \<Rightarrow>
     (error + nat) \<times> cli_state" where
  "init_after_config w envs cfg configFilePath st =
     (let files = filePaths envs
                    @ (case configFilePath of
                         None \<Rightarrow> []
                       | Some f \<Rightarrow> if f \<noteq> [] then [f] else []);
          watching = (argv2 w = Some ''dev'');
          st' = (if watching then st\<lparr>watched := watched st @ [files]\<rparr> else st)
      in case (if watching then watchFiles w files else None) of
           Some e \<Rightarrow> (Inl e, st')
         | None \<Rightarrow>
             (case importCreateRsbuild w of
                Some e \<Rightarrow> (Inl e, st')
              | None \<Rightarrow>
                  (createRsbuild w (cwd w) (apply_common_options (commonOpts st') envs cfg),
                   st')))"

text \<open>\<^verbatim>\<open>cliOptions?.envMode\<close>\<close>

definition cli_envMode :: "common_options option \<Rightarrow> string option" where
  "cli_envMode cliOptions = (case cliOptions of None \<Rightarrow> None | Some c \<Rightarrow> co_envMode c)"

text \<open>Lines 41-43: \<^verbatim>\<open>if (cliOptions) commonOpts = cliOptions\<close>.\<close>

definition store_cli_options :: "common_options option \<Rightarrow> cli_state \<Rightarrow> cli_state" where
  "store_cli_options cliOptions st =
     (case cliOptions of None \<Rightarrow> st | Some c \<Rightarrow> st\<lparr>commonOpts := c\<rparr>)"

text \<open>Lines 46-98: the whole \<^verbatim>\<open>try\<close> block; \<open>Inl e\<close> is control reaching \<^verbatim>\<open>catch\<close> with \<open>e\<close>.\<close>

definition init_try ::
  "init_world \<Rightarrow> common_options option \<Rightarrow> cli_state \<Rightarrow> (error + nat) \<times> cli_state" where
  "init_try w cliOptions st =
     (case loadEnv w (cwd w) (cli_envMode cliOptions) of
        Inl e \<Rightarrow> (Inl e, st)
      | Inr envs \<Rightarrow>
          (let st' = (if isDev w
                      then st\<lparr>restart_cleanups := restart_cleanups st @ [cleanup envs]\<rparr>
                      else st)
           in case loadConfig w (cwd w) (co_config (commonOpts st')) (co_envMode (commonOpts st')) of
                Inl e \<Rightarrow> (Inl e, st')
              | Inr (cfg, configFilePath) \<Rightarrow> init_after_config w envs cfg configFilePath st'))"

text \<open>
  \<^verbatim>\<open>init\<close>, lines 34-106. \<open>Inl e\<close>: the returned promise rejects with \<open>e\<close>; \<open>Inr None\<close>:
  it fulfils with \<^verbatim>\<open>undefined\<close>; \<open>Inr (Some r)\<close>: it fulfils with the instance.
\<close>

definition init ::
  "init_world \<Rightarrow> common_options option \<Rightarrow> bool option \<Rightarrow> cli_state \<Rightarrow>
     (error + nat option) \<times> cli_state" where
  "init w cliOptions isRestart st =
     (case init_try w cliOptions (store_cli_options cliOptions st) of
        (Inr r, st') \<Rightarrow> (Inr (Some r), st')
      | (Inl err, st') \<Rightarrow>
          if isRestart = Some True
          then (Inr None, st'\<lparr>logged_errors := logged_errors st' @ [err]\<rparr>)
          else (Inl err, st'))"

section \<open>Observing a run\<close>

fun is_hook_call :: "hook_name \<Rightarrow> event \<Rightarrow> bool" where
  "is_hook_call h (HookCall h' p) = (h = h')"
| "is_hook_call h e = False"

fun is_hook_callback :: "hook_name \<Rightarrow> event \<Rightarrow> bool" where
  "is_hook_callback h (HookCallback h' i p) = (h = h')"
| "is_hook_callback h e = False"

fun is_create :: "event \<Rightarrow> bool" where
  "is_create (CreateDevServer p) = True"
| "is_create e = False"

fun is_get_port :: "event \<Rightarrow> bool" where
  "is_get_port (GetPort p s q) = True"
| "is_get_port e = False"

fun is_print :: "event \<Rightarrow> bool" where
  "is_print (PrintServerURLs us) = True"
| "is_print e = False"

text \<open>
  The first event satisfying \<open>P\<close> comes strictly before the first event satisfying \<open>Q\<close>,
  and an event satisfying \<open>Q\<close> does come.
\<close>

fun happens_before :: "(event \<Rightarrow> bool) \<Rightarrow> (event \<Rightarrow> bool) \<Rightarrow> event list \<Rightarrow> bool" where
  "happens_before P Q [] = False"
| "happens_before P Q (e # es) =
     (if Q e then False else if P e then list_ex Q es else happens_before P Q es)"

text \<open>
  The first registered callback whose promise rejects on the payload, with its index and
  error; \<open>None\<close> when every callback fulfils.
\<close>

fun first_rejection :: "hook_callback list \<Rightarrow> nat option \<Rightarrow> (nat \<times> error) option" where
  "first_rejection [] payload = None"
| "first_rejection (cb # cbs) payload =
     (case cb payload of
        Some e \<Rightarrow> Some (0, e)
      | None \<Rightarrow> map_option (\<lambda>ie. (Suc (fst ie), snd ie)) (first_rejection cbs payload))"

text \<open>
  What a run asks of its collaborators: the call of the port resolver and its result, the
  URL list left by the \<^verbatim>\<open>printURLs\<close> block, and the call of the server factory.
\<close>

definition port_event :: "externals \<Rightarrow> dev_server_context \<Rightarrow> start_options \<Rightarrow> event" where
  "port_event ext ctx opts =
     GetPort (requested_port ext (config ctx)) (effective_strictPort opts)
       (opt_getPortSilently opts)"

definition port_result :: "externals \<Rightarrow> dev_server_context \<Rightarrow> start_options \<Rightarrow> error + nat" where
  "port_result ext ctx opts =
     getPort ext (requested_port ext (config ctx)) (effective_strictPort opts)
       (opt_getPortSilently opts)"

definition printed_urls ::
  "externals \<Rightarrow> dev_server_context \<Rightarrow> start_options \<Rightarrow> nat \<Rightarrow> error + url_entry list" where
  "printed_urls ext ctx opts port =
     snd (print_urls_stage (effective_printURLs opts) (computed_urls ext ctx opts port))"

definition created_server ::
  "server_factory \<Rightarrow> externals \<Rightarrow> dev_server_context \<Rightarrow> start_options \<Rightarrow> nat \<Rightarrow>
     error + server_api" where
  "created_server mk ext ctx opts port =
     mk (bound_context ext ctx opts port) port (effective_serverOptions opts) (opt_compiler opts)"

text \<open>Calls and callbacks of the after-start hook.\<close>

fun is_after_start :: "event \<Rightarrow> bool" where
  "is_after_start (HookCall h p) = (h = OnAfterStartDevServer)"
| "is_after_start (HookCallback h i p) = (h = OnAfterStartDevServer)"
| "is_after_start e = False"

text \<open>Events that only the steps before the server factory produce.\<close>

fun prologue_event :: "event \<Rightarrow> bool" where
  "prologue_event (EnvSet k v) = True"
| "prologue_event (GetPort p s q) = True"
| "prologue_event (PrintURLsCalled us) = True"
| "prologue_event (PrintServerURLs us) = True"
| "prologue_event e = False"

section \<open>Concrete runs\<close>

text \<open>A port resolver that finds every requested port free, and a loopback URL.\<close>

definition ex_externals :: externals where
  "ex_externals =
     \<lparr>getPort = (\<lambda>requested strict silent. Inr requested),
      getAddressUrls = (\<lambda>protocol port host.
         [\<lparr>url = protocol @ ''://localhost:'' @ toString port, label = ''Local''\<rparr>]),
      DEFAULT_PORT = 8080,
      DEFAULT_DEV_HOST = ''0.0.0.0''\<rparr>"

definition ex_server :: server_api where
  "ex_server = \<lparr>server_handle = 1, init_result = None, listen_result = ListenCallback None\<rparr>"

definition ex_factory :: server_factory where
  "ex_factory = (\<lambda>ctx port so compiler. Inr ex_server)"

definition ex_config :: rsbuild_config where
  "ex_config =
     \<lparr>dev = Some \<lparr>dev_port = Some 3000, dev_hmr = None, dev_https = Undefined, dev_host = None\<rparr>,
      tools_devServer = None\<rparr>"

definition ex_context :: dev_server_context where
  "ex_context =
     \<lparr>config = ex_config,
      onBeforeStartDevServerHook = [\<lambda>payload. None],
      onAfterStartDevServerHook = [\<lambda>payload. None],
      devServer = None\<rparr>"

definition ex_options :: start_options where
  "ex_options =
     \<lparr>opt_open = Undefined, opt_compiler = Undefined, opt_printURLs = None,
      opt_strictPort = None, opt_serverOptions = None, opt_getPortSilently = None\<rparr>"

text \<open>A server whose bind fails, and a port resolver that rejects.\<close>

definition ex_failing_server :: server_api where
  "ex_failing_server =
     \<lparr>server_handle = 2, init_result = None,
      listen_result = ListenCallback (Some (Error ''listen EADDRINUSE''))\<rparr>"

definition ex_failing_factory :: server_factory where
  "ex_failing_factory = (\<lambda>ctx port so compiler. Inr ex_failing_server)"

definition ex_busy_externals :: externals where
  "ex_busy_externals =
     ex_externals\<lparr>getPort := (\<lambda>requested strict silent. Inl (Error ''Port is occupied''))\<rparr>"

text \<open>Three callbacks on a hook, the second of which rejects.\<close>

definition ex_rejecting_hook :: "hook_callback list" where
  "ex_rejecting_hook =
     [\<lambda>payload. None, \<lambda>payload. Some (Error ''callback failed''), \<lambda>payload. None]"

definition ex_context_before_fails :: dev_server_context where
  "ex_context_before_fails = ex_context\<lparr>onBeforeStartDevServerHook := ex_rejecting_hook\<rparr>"

definition ex_context_after_fails :: dev_server_context where
  "ex_context_after_fails = ex_context\<lparr>onAfterStartDevServerHook := ex_rejecting_hook\<rparr>"

text \<open>A \<^verbatim>\<open>printURLs\<close> function that returns a string, and one that returns its own list.\<close>

definition ex_options_bad_printURLs :: start_options where
  "ex_options_bad_printURLs =
     ex_options\<lparr>opt_printURLs := Some (PrintFn (\<lambda>urls. Inr (RetOther (NaStr ''nope''))))\<rparr>"

definition ex_options_custom_printURLs :: start_options where
  "ex_options_custom_printURLs =
     ex_options\<lparr>opt_printURLs :=
       Some (PrintFn (\<lambda>urls. Inr (RetArray [\<lparr>url = ''http://example.test:3000'', label = ''Custom''\<rparr>])))\<rparr>"

text \<open>Configurations with port 0, with no port, and with no \<^verbatim>\<open>dev\<close> section.\<close>

definition ex_context_port_zero :: dev_server_context where
  "ex_context_port_zero =
     ex_context\<lparr>config :=
       \<lparr>dev = Some \<lparr>dev_port = Some 0, dev_hmr = None, dev_https = Undefined, dev_host = None\<rparr>,
        tools_devServer = None\<rparr>\<rparr>"

definition ex_context_no_port :: dev_server_context where
  "ex_context_no_port =
     ex_context\<lparr>config :=
       \<lparr>dev = Some \<lparr>dev_port = None, dev_hmr = None, dev_https = Undefined, dev_host = None\<rparr>,
        tools_devServer = None\<rparr>\<rparr>"

definition ex_context_no_dev :: dev_server_context where
  "ex_context_no_dev = ex_context\<lparr>config := \<lparr>dev = None, tools_devServer = None\<rparr>\<rparr>"

text \<open>
  A command line \<^verbatim>\<open>dev --port 4000\<close> in a project whose files load, and in projects where
  one step fails.
\<close>

definition ex_cli_options :: common_options where
  "ex_cli_options =
     \<lparr>co_config = None, co_envMode = None, co_open = Undefined, co_host = None,
      co_port = Some 4000\<rparr>"

definition ex_cli_state :: cli_state where
  "ex_cli_state =
     \<lparr>commonOpts = ex_cli_options, logged_errors = [], restart_cleanups = [], watched = []\<rparr>"

definition ex_world :: init_world where
  "ex_world =
     \<lparr>cwd = ''/app'',
      loadEnv = (\<lambda>dir mode. Inr \<lparr>filePaths = [''/app/.env''], publicVars = [], cleanup = 1\<rparr>),
      isDev = True,
      loadConfig = (\<lambda>dir path mode.
         Inr (\<lparr>cfg_source = None, cfg_dev = None, cfg_server = None\<rparr>,
              Some ''/app/rsbuild.config.ts'')),
      argv2 = Some ''dev'',
      watchFiles = (\<lambda>files. None),
      importCreateRsbuild = None,
      createRsbuild = (\<lambda>dir cfg. Inr 1)\<rparr>"

definition ex_world_bad_env :: init_world where
  "ex_world_bad_env = ex_world\<lparr>loadEnv := (\<lambda>dir mode. Inl (Error ''cannot read .env''))\<rparr>"

definition ex_world_bad_config :: init_world where
  "ex_world_bad_config =
     ex_world\<lparr>loadConfig := (\<lambda>dir path mode. Inl (Error ''SyntaxError in rsbuild.config.ts''))\<rparr>"

definition ex_world_bad_create :: init_world where
  "ex_world_bad_create =
     ex_world\<lparr>createRsbuild := (\<lambda>dir cfg. Inl (Error ''createRsbuild failed''))\<rparr>"

text \<open>Tool-level and server-level overrides of the dev-server options.\<close>

definition ex_tools_config :: rsbuild_config where
  "ex_tools_config =
     \<lparr>dev = Some \<lparr>dev_port = Some 3000, dev_hmr = Some False, dev_https = Undefined,
                  dev_host = None\<rparr>,
      tools_devServer =
        Some (Obj [(''port'', Num 1), (''client'', Obj [(''host'', Str ''h'')])])\<rparr>"

definition ex_server_dev_options :: server_options where
  "ex_server_dev_options =
     \<lparr>so_dev = Some (Obj [(''port'', Num 2), (''host'', Str ''0.0.0.0'')])\<rparr>"

text \<open>
  A configuration whose \<^verbatim>\<open>dev.https\<close> is a key and certificate pair while
  \<^verbatim>\<open>tools.devServer\<close> sets \<^verbatim>\<open>https\<close> to \<^verbatim>\<open>true\<close>; and server options whose \<^verbatim>\<open>dev\<close> is a
  boolean or is unset.
\<close>

definition ex_https_config :: rsbuild_config where
  "ex_https_config =
     \<lparr>dev = Some \<lparr>dev_port = Some 3000, dev_hmr = None,
                  dev_https = Obj [(''key'', Str ''k''), (''cert'', Str ''c'')],
                  dev_host = None\<rparr>,
      tools_devServer = Some (Obj [(''https'', Bool True)])\<rparr>"

definition ex_server_dev_true :: server_options where
  "ex_server_dev_true = \<lparr>so_dev = Some (Bool True)\<rparr>"

definition ex_server_dev_false :: server_options where
  "ex_server_dev_false = \<lparr>so_dev = Some (Bool False)\<rparr>"

definition ex_server_dev_unset :: server_options where
  "ex_server_dev_unset = \<lparr>so_dev = None\<rparr>"

definition ex_env_production :: "string \<Rightarrow> string option" where
  "ex_env_production = [''NODE_ENV'' \<mapsto> ''production'']"

definition ex_callbacks :: "nat server_callbacks" where
  "ex_callbacks = \<lparr>onInvalid = 1, onDone = 2\<rparr>"

definition ex_web_compiler :: "nat compiler" where
  "ex_web_compiler =
     \<lparr>compiler_name = Some ''web'',
      hooks = \<lparr>hook_compile = [], hook_invalid = [], hook_done = [(''other'', 7)]\<rparr>\<rparr>"

definition ex_server_compiler :: "nat compiler" where
  "ex_server_compiler =
     \<lparr>compiler_name = Some ''server'',
      hooks = \<lparr>hook_compile = [], hook_invalid = [], hook_done = [(''other'', 7)]\<rparr>\<rparr>"

section \<open>The hook pipeline in closed form\<close>

lemma run_callbacks_closed:
  "run_callbacks h cbs k p =
     (case first_rejection cbs p of
        None \<Rightarrow> (map (\<lambda>j. HookCallback h j p) [k..<k + length cbs], None)
      | Some ie \<Rightarrow> (map (\<lambda>j. HookCallback h j p) [k..<k + Suc (fst ie)], Some (snd ie)))"
proof (induction cbs arbitrary: k)
  case Nil
  then show ?case by simp
next
  case (Cons cb cbs)
  show ?case
  proof (cases "cb p")
    case None
    have "[k..<k + Suc n] = k # [Suc k..<Suc k + n]" for n
      by (simp add: upt_conv_Cons)
    with None Cons.IH [of "Suc k"] show ?thesis
      by (simp split: option.splits)
  next
    case (Some e)
    then show ?thesis by simp
  qed
qed

lemma run_callbacks_events:
  "run_callbacks h cbs k p = (evs, r) \<Longrightarrow> e \<in> set evs \<Longrightarrow> \<exists>i. e = HookCallback h i p"
  by (auto simp: run_callbacks_closed split: option.splits)

lemma hook_call_shape:
  "hook_call h cbs p = (evs, r) \<Longrightarrow>
     \<exists>cbevs. evs = HookCall h p # cbevs \<and> (\<forall>e\<in>set cbevs. \<exists>i. e = HookCallback h i p)
       \<and> run_callbacks h cbs 0 p = (cbevs, r)"
  by (auto simp: hook_call_def split: prod.splits dest: run_callbacks_events)

lemma hook_call_no_prologue:
  "hook_call h cbs p = (evs, r) \<Longrightarrow> e \<in> set evs \<Longrightarrow> \<not> prologue_event e"
  by (drule hook_call_shape) fastforce

lemma listen_promise_no_prologue:
  "listen_promise ctx host port urls server = (evs, out) \<Longrightarrow> e \<in> set evs \<Longrightarrow> \<not> prologue_event e"
  by (auto simp: listen_promise_def listen_callback_def
        split: listen_behaviour.splits option.splits prod.splits
        dest: hook_call_no_prologue)

lemma server_stage_no_prologue:
  "server_stage mk ctx opts so host port urls = (evs, out) \<Longrightarrow> e \<in> set evs \<Longrightarrow> \<not> prologue_event e"
  by (auto simp: server_stage_def
        split: sum.splits option.splits prod.splits
        dest: hook_call_no_prologue listen_promise_no_prologue)

section \<open>The shape of a run\<close>

lemma print_urls_stage_prologue:
  "print_urls_stage P urls = (evs, r) \<Longrightarrow> e \<in> set evs \<Longrightarrow> prologue_event e"
  by (auto simp: print_urls_stage_def split: printURLs_option.splits sum.splits printURLs_return.splits if_splits)

lemma set_node_env_prologue:
  "set_node_env env = (env', evs) \<Longrightarrow> e \<in> set evs \<Longrightarrow> prologue_event e"
  by (auto simp: set_node_env_def split: if_splits)

text \<open>The trace of a run splits into the prologue and the events of the server stage.\<close>

lemma startDevServer_cases:
  obtains (port_rejected) env' evs0 e where
      "set_node_env env = (env', evs0)"
      "getPort ext (requested_port ext (config ctx)) (effective_strictPort opts) (opt_getPortSilently opts) = Inl e"
      "startDevServer ext mk ctx opts env =
         \<lparr>outcome = Rejected e,
          trace = evs0 @ [GetPort (requested_port ext (config ctx)) (effective_strictPort opts) (opt_getPortSilently opts)],
          env_after = env', context_after = ctx\<rparr>"
  | (print_rejected) env' evs0 port evsP e where
      "set_node_env env = (env', evs0)"
      "getPort ext (requested_port ext (config ctx)) (effective_strictPort opts) (opt_getPortSilently opts) = Inr port"
      "print_urls_stage (effective_printURLs opts) (computed_urls ext ctx opts port) = (evsP, Inl e)"
      "startDevServer ext mk ctx opts env =
         \<lparr>outcome = Rejected e,
          trace = evs0 @ [GetPort (requested_port ext (config ctx)) (effective_strictPort opts) (opt_getPortSilently opts)] @ evsP,
          env_after = env', context_after = bound_context ext ctx opts port\<rparr>"
  | (server_stage) env' evs0 port evsP us evsS out where
      "set_node_env env = (env', evs0)"
      "getPort ext (requested_port ext (config ctx)) (effective_strictPort opts) (opt_getPortSilently opts) = Inr port"
      "print_urls_stage (effective_printURLs opts) (computed_urls ext ctx opts port) = (evsP, Inr us)"
      "server_stage mk (bound_context ext ctx opts port) opts (effective_serverOptions opts)
          (resolve_host ext (effective_serverOptions opts)) port us = (evsS, out)"
      "startDevServer ext mk ctx opts env =
         \<lparr>outcome = out,
          trace = evs0 @ [GetPort (requested_port ext (config ctx)) (effective_strictPort opts) (opt_getPortSilently opts)] @ evsP @ evsS,
          env_after = env', context_after = bound_context ext ctx opts port\<rparr>"
proof -
  obtain env' evs0 where s: "set_node_env env = (env', evs0)" by (cases "set_node_env env")
  show thesis
  proof (cases "getPort ext (requested_port ext (config ctx)) (effective_strictPort opts) (opt_getPortSilently opts)")
    case (Inl e)
    with s show ?thesis
      by (intro port_rejected [of env' evs0 e]) (simp_all add: startDevServer_def)
  next
    case (Inr port)
    obtain evsP r where p: "print_urls_stage (effective_printURLs opts) (computed_urls ext ctx opts port) = (evsP, r)"
      by (cases "print_urls_stage (effective_printURLs opts) (computed_urls ext ctx opts port)")
    show ?thesis
    proof (cases r)
      case (Inl e)
      with s Inr p show ?thesis
        by (intro print_rejected [of env' evs0 port evsP e]) (simp_all add: startDevServer_def after_port_def)
    next
      case us: (Inr us)
      obtain evsS out where "server_stage mk (bound_context ext ctx opts port) opts (effective_serverOptions opts)
          (resolve_host ext (effective_serverOptions opts)) port us = (evsS, out)"
        by (cases "server_stage mk (bound_context ext ctx opts port) opts (effective_serverOptions opts)
          (resolve_host ext (effective_serverOptions opts)) port us")
      with s Inr p us show ?thesis
        by (intro server_stage [of env' evs0 port evsP us evsS out]) (simp_all add: startDevServer_def after_port_def)
    qed
  qed
qed


lemma server_stage_cases:
  obtains (factory_rejected) e where
      "mk ctx port so (opt_compiler opts) = Inl e"
      "server_stage mk ctx opts so host port us = ([CreateDevServer port], Rejected e)"
  | (before_rejected) server cbevs e where
      "mk ctx port so (opt_compiler opts) = Inr server"
      "run_callbacks OnBeforeStartDevServer (onBeforeStartDevServerHook ctx) 0 None = (cbevs, Some e)"
      "server_stage mk ctx opts so host port us =
         (CreateDevServer port # HookCall OnBeforeStartDevServer None # cbevs, Rejected e)"
  | (init_rejected) server cbevs e where
      "mk ctx port so (opt_compiler opts) = Inr server"
      "run_callbacks OnBeforeStartDevServer (onBeforeStartDevServerHook ctx) 0 None = (cbevs, None)"
      "init_result server = Some e"
      "server_stage mk ctx opts so host port us =
         (CreateDevServer port # HookCall OnBeforeStartDevServer None # cbevs
            @ [Debug ''listen dev server'', ServerInit], Rejected e)"
  | (listening) server cbevs evsL out where
      "mk ctx port so (opt_compiler opts) = Inr server"
      "run_callbacks OnBeforeStartDevServer (onBeforeStartDevServerHook ctx) 0 None = (cbevs, None)"
      "init_result server = None"
      "listen_promise ctx host port us server = (evsL, out)"
      "server_stage mk ctx opts so host port us =
         (CreateDevServer port # HookCall OnBeforeStartDevServer None # cbevs
            @ [Debug ''listen dev server'', ServerInit] @ evsL, out)"
proof (cases "mk ctx port so (opt_compiler opts)")
  case (Inl e)
  then show ?thesis by (intro factory_rejected [of e]) (simp_all add: server_stage_def)
next
  case (Inr server)
  obtain cbevs r where rc:
    "run_callbacks OnBeforeStartDevServer (onBeforeStartDevServerHook ctx) 0 None = (cbevs, r)"
    by (cases "run_callbacks OnBeforeStartDevServer (onBeforeStartDevServerHook ctx) 0 None")
  show ?thesis
  proof (cases r)
    case (Some e)
    with Inr rc show ?thesis
      by (intro before_rejected [of server cbevs e]) (simp_all add: server_stage_def hook_call_def)
  next
    case None
    show ?thesis
    proof (cases "init_result server")
      case (Some e)
      with Inr rc None show ?thesis
        by (intro init_rejected [of server cbevs e]) (simp_all add: server_stage_def hook_call_def)
    next
      case no_init_error: None
      obtain evsL out where "listen_promise ctx host port us server = (evsL, out)"
        by (cases "listen_promise ctx host port us server")
      with Inr rc None no_init_error show ?thesis
        by (intro listening [of server cbevs evsL out]) (simp_all add: server_stage_def hook_call_def)
    qed
  qed
qed

lemma listen_promise_cases:
  obtains (throws) e where
      "listen_result server = ListenThrows e"
      "listen_promise ctx host port us server = ([ServerListen host port], Rejected e)"
  | (silent)
      "listen_result server = ListenSilent"
      "listen_promise ctx host port us server = ([ServerListen host port], Pending None)"
  | (callback_error) e where
      "listen_result server = ListenCallback (Some e)"
      "listen_promise ctx host port us server =
         ([ServerListen host port, ListenCallbackRun (Some e)], Pending (Some e))"
  | (hook_rejected) cbevs e where
      "listen_result server = ListenCallback None"
      "run_callbacks OnAfterStartDevServer (onAfterStartDevServerHook ctx) 0 (Some port) = (cbevs, Some e)"
      "listen_promise ctx host port us server =
         ([ServerListen host port, ListenCallbackRun None, Debug ''listen dev server done'',
           HookCall OnAfterStartDevServer (Some port)] @ cbevs, Pending (Some e))"
  | (resolved) cbevs where
      "listen_result server = ListenCallback None"
      "run_callbacks OnAfterStartDevServer (onAfterStartDevServerHook ctx) 0 (Some port) = (cbevs, None)"
      "listen_promise ctx host port us server =
         ([ServerListen host port, ListenCallbackRun None, Debug ''listen dev server done'',
           HookCall OnAfterStartDevServer (Some port)] @ cbevs @ [ResolveCalled],
          Resolved \<lparr>res_port = port, res_urls = map url us, res_server = server\<rparr>)"
proof (cases "listen_result server")
  case (ListenThrows e)
  then show ?thesis by (intro throws [of e]) (simp_all add: listen_promise_def)
next
  case ListenSilent
  then show ?thesis by (intro silent) (simp_all add: listen_promise_def)
next
  case (ListenCallback err)
  show ?thesis
  proof (cases err)
    case (Some e)
    with ListenCallback show ?thesis
      by (intro callback_error [of e]) (simp_all add: listen_promise_def listen_callback_def)
  next
    case None
    obtain cbevs r where rc:
      "run_callbacks OnAfterStartDevServer (onAfterStartDevServerHook ctx) 0 (Some port) = (cbevs, r)"
      by (cases "run_callbacks OnAfterStartDevServer (onAfterStartDevServerHook ctx) 0 (Some port)")
    show ?thesis
    proof (cases r)
      case (Some e)
      with ListenCallback None rc show ?thesis
        by (intro hook_rejected [of cbevs e])
          (simp_all add: listen_promise_def listen_callback_def hook_call_def)
    next
      case no_rejection: None
      with ListenCallback None rc show ?thesis
        by (intro resolved [of cbevs])
          (simp_all add: listen_promise_def listen_callback_def hook_call_def)
    qed
  qed
qed

lemma run_cases:
  obtains (port_rejected) pro e where
      "port_result ext ctx opts = Inl e"
      "\<forall>x\<in>set pro. prologue_event x"
      "trace (startDevServer ext mk ctx opts env) = pro" "outcome (startDevServer ext mk ctx opts env) = Rejected e"
  | (print_rejected) pro port e where
      "port_result ext ctx opts = Inr port"
      "printed_urls ext ctx opts port = Inl e"
      "\<forall>x\<in>set pro. prologue_event x"
      "trace (startDevServer ext mk ctx opts env) = pro" "outcome (startDevServer ext mk ctx opts env) = Rejected e"
  | (factory_rejected) pro port us e where
      "port_result ext ctx opts = Inr port"
      "printed_urls ext ctx opts port = Inr us"
      "created_server mk ext ctx opts port = Inl e"
      "\<forall>x\<in>set pro. prologue_event x"
      "trace (startDevServer ext mk ctx opts env) = pro @ [CreateDevServer port]" "outcome (startDevServer ext mk ctx opts env) = Rejected e"
  | (before_rejected) pro port us server cbevs e where
      "port_result ext ctx opts = Inr port"
      "printed_urls ext ctx opts port = Inr us"
      "created_server mk ext ctx opts port = Inr server"
      "run_callbacks OnBeforeStartDevServer (onBeforeStartDevServerHook ctx) 0 None = (cbevs, Some e)"
      "\<forall>x\<in>set pro. prologue_event x"
      "trace (startDevServer ext mk ctx opts env) = pro @ CreateDevServer port # HookCall OnBeforeStartDevServer None # cbevs"
      "outcome (startDevServer ext mk ctx opts env) = Rejected e"
  | (init_rejected) pro port us server cbevs e where
      "port_result ext ctx opts = Inr port"
      "printed_urls ext ctx opts port = Inr us"
      "created_server mk ext ctx opts port = Inr server"
      "run_callbacks OnBeforeStartDevServer (onBeforeStartDevServerHook ctx) 0 None = (cbevs, None)"
      "init_result server = Some e"
      "\<forall>x\<in>set pro. prologue_event x"
      "trace (startDevServer ext mk ctx opts env) = pro @ CreateDevServer port # HookCall OnBeforeStartDevServer None # cbevs
                  @ [Debug ''listen dev server'', ServerInit]"
      "outcome (startDevServer ext mk ctx opts env) = Rejected e"
  | (listening) pro port us server cbevs evsL where
      "port_result ext ctx opts = Inr port"
      "printed_urls ext ctx opts port = Inr us"
      "created_server mk ext ctx opts port = Inr server"
      "run_callbacks OnBeforeStartDevServer (onBeforeStartDevServerHook ctx) 0 None = (cbevs, None)"
      "init_result server = None"
      "\<forall>x\<in>set pro. prologue_event x"
      "listen_promise (bound_context ext ctx opts port)
         (resolve_host ext (effective_serverOptions opts)) port us server = (evsL, outcome (startDevServer ext mk ctx opts env))"
      "trace (startDevServer ext mk ctx opts env) = pro @ CreateDevServer port # HookCall OnBeforeStartDevServer None # cbevs
                  @ [Debug ''listen dev server'', ServerInit] @ evsL"
proof (cases rule: startDevServer_cases [of env ext ctx opts mk])
  case (port_rejected env' evs0 e)
  show ?thesis
    apply (rule that(1) [of e "trace (startDevServer ext mk ctx opts env)"])
    using port_rejected
    by (auto simp: port_result_def dest: set_node_env_prologue)
next
  case (print_rejected env' evs0 port evsP e)
  show ?thesis
    apply (rule that(2) [of port e "trace (startDevServer ext mk ctx opts env)"])
    using print_rejected
    by (auto simp: port_result_def printed_urls_def dest: set_node_env_prologue print_urls_stage_prologue)
next
  case (server_stage env' evs0 port evsP us evsS out)
  define pro where "pro = evs0 @ [port_event ext ctx opts] @ evsP"
  have pro: "\<forall>x\<in>set pro. prologue_event x"
    using server_stage(1,3)
    by (auto simp: pro_def port_event_def dest: set_node_env_prologue print_urls_stage_prologue)
  have tr: "trace (startDevServer ext mk ctx opts env) = pro @ evsS" and out: "outcome (startDevServer ext mk ctx opts env) = out"
    using server_stage(5) by (simp_all add: pro_def port_event_def)
  have p: "port_result ext ctx opts = Inr port" using server_stage(2) by (simp add: port_result_def)
  have u: "printed_urls ext ctx opts port = Inr us" using server_stage(3) by (simp add: printed_urls_def)
  have ctx_hook: "onBeforeStartDevServerHook (bound_context ext ctx opts port) = onBeforeStartDevServerHook ctx"
    by (simp add: bound_context_def)
  show ?thesis
  proof (cases rule: server_stage_cases [of mk "bound_context ext ctx opts port" port
           "effective_serverOptions opts" opts "resolve_host ext (effective_serverOptions opts)" us])
    case (factory_rejected e)
    with server_stage(4) p u pro tr out show ?thesis
      by (intro that(3) [of port us e pro]) (simp_all add: created_server_def)
  next
    case (before_rejected server cbevs e)
    with server_stage(4) p u pro tr out ctx_hook show ?thesis
      by (intro that(4) [of port us server cbevs e pro]) (simp_all add: created_server_def)
  next
    case (init_rejected server cbevs e)
    with server_stage(4) p u pro tr out ctx_hook show ?thesis
      by (intro that(5) [of port us server cbevs e pro]) (simp_all add: created_server_def)
  next
    case (listening server cbevs evsL out')
    with server_stage(4) p u pro tr out ctx_hook show ?thesis
      by (intro that(6) [of port us server cbevs pro evsL]) (simp_all add: created_server_def)
  qed
qed

lemma prologue_filter:
  "\<forall>x\<in>set pro. prologue_event x \<Longrightarrow> (\<And>x. P x \<Longrightarrow> \<not> prologue_event x) \<Longrightarrow> filter P pro = []"
  by (auto simp: filter_empty_conv)

lemma prologue_notin:
  "\<forall>x\<in>set pro. prologue_event x \<Longrightarrow> \<not> prologue_event e \<Longrightarrow> e \<notin> set pro"
  by auto

lemma run_callbacks_filter_other:
  "run_callbacks h cbs k p = (evs, r) \<Longrightarrow> (\<And>i. \<not> P (HookCallback h i p)) \<Longrightarrow> filter P evs = []"
  by (auto simp: filter_empty_conv dest: run_callbacks_events)

lemma run_callbacks_notin:
  "run_callbacks h cbs k p = (evs, r) \<Longrightarrow> (\<And>i. e \<noteq> HookCallback h i p) \<Longrightarrow> e \<notin> set evs"
  by (auto dest: run_callbacks_events)

lemma run_callbacks_filter_same:
  "run_callbacks h cbs k p = (evs, r) \<Longrightarrow> filter (is_hook_callback h) evs = evs"
  by (auto simp: filter_id_conv dest: run_callbacks_events)

lemma is_hook_call_not_prologue: "is_hook_call h x \<Longrightarrow> \<not> prologue_event x"
  by (cases x) simp_all

lemma is_hook_callback_not_prologue: "is_hook_callback h x \<Longrightarrow> \<not> prologue_event x"
  by (cases x) simp_all

lemma bound_context_hooks [simp]:
  "onBeforeStartDevServerHook (bound_context ext ctx opts port) = onBeforeStartDevServerHook ctx"
  "onAfterStartDevServerHook (bound_context ext ctx opts port) = onAfterStartDevServerHook ctx"
  by (simp_all add: bound_context_def)

lemma happens_before_skip:
  "\<forall>x\<in>set pro. \<not> P x \<and> \<not> Q x \<Longrightarrow> happens_before P Q (pro @ xs) = happens_before P Q xs"
  by (induction pro) simp_all



lemma run_callbacks_list_ex:
  "run_callbacks h cbs k p = (evs, r) \<Longrightarrow> (\<And>i. \<not> P (HookCallback h i p)) \<Longrightarrow> \<not> list_ex P evs"
  by (auto simp: list_ex_iff dest: run_callbacks_events)

lemma happens_before_callbacks:
  "run_callbacks h cbs k p = (evs, r) \<Longrightarrow> (\<And>i. \<not> P (HookCallback h i p)) \<Longrightarrow>
     (\<And>i. \<not> Q (HookCallback h i p)) \<Longrightarrow>
     happens_before P Q (evs @ xs) = happens_before P Q xs"
  by (rule happens_before_skip) (auto dest: run_callbacks_events)

lemmas run_defs =
  startDevServer_def after_port_def server_stage_def listen_promise_def listen_callback_def
  hook_call_def print_urls_stage_def set_node_env_def node_env_unset_def requested_port_def
  effective_printURLs_def effective_strictPort_def effective_serverOptions_def
  bound_context_def computed_urls_def resolve_host_def resolve_https_def so_dev_value_def
  port_result_def port_event_def printed_urls_def created_server_def

lemmas ex_defs =
  ex_externals_def ex_server_def ex_factory_def ex_config_def ex_context_def ex_options_def
  ex_env_production_def ex_failing_server_def ex_failing_factory_def ex_busy_externals_def
  ex_rejecting_hook_def ex_context_before_fails_def ex_context_after_fails_def
  ex_options_bad_printURLs_def ex_options_custom_printURLs_def ex_context_port_zero_def
  ex_context_no_port_def ex_context_no_dev_def

lemmas ex_cli_defs =
  ex_cli_options_def ex_cli_state_def ex_world_def ex_world_bad_env_def
  ex_world_bad_config_def ex_world_bad_create_def

section \<open>The environment\<close>

text \<open>
  Claim C7. \<^verbatim>\<open>startDevServer\<close> sets \<^verbatim>\<open>NODE_ENV\<close> to \<^verbatim>\<open>development\<close> exactly when it is unset
  (undefined or empty) at entry; when it already has a value the environment after the
  run is the environment at entry; and no other variable is changed in either case. This
  holds for every run, whatever its outcome.
\<close>

theorem startDevServer_node_env:
  "(env ''NODE_ENV'' = None \<or> env ''NODE_ENV'' = Some [] \<longrightarrow>
      env_after (startDevServer ext mk ctx opts env) = env(''NODE_ENV'' \<mapsto> ''development'')) \<and>
   (\<forall>v. env ''NODE_ENV'' = Some v \<and> v \<noteq> [] \<longrightarrow>
      env_after (startDevServer ext mk ctx opts env) = env) \<and>
   (\<forall>k. k \<noteq> ''NODE_ENV'' \<longrightarrow> env_after (startDevServer ext mk ctx opts env) k = env k)"
  by (auto simp: startDevServer_def set_node_env_def node_env_unset_def Let_def
        split: sum.splits prod.splits option.splits)

theorem startDevServer_node_env_witness:
  "env_after (startDevServer ex_externals ex_factory ex_context ex_options Map.empty)
     = [''NODE_ENV'' \<mapsto> ''development''] \<and>
   env_after (startDevServer ex_externals ex_factory ex_context ex_options ex_env_production)
     = ex_env_production \<and>
   env_after (startDevServer ex_externals ex_factory ex_context ex_options ex_env_production) ''PATH''
     = ex_env_production ''PATH''"
  using startDevServer_node_env [of Map.empty ex_externals ex_factory ex_context ex_options]
    startDevServer_node_env [of ex_env_production ex_externals ex_factory ex_context ex_options]
  by (simp add: ex_env_production_def)

section \<open>The compiler-event bridge wires three taps\<close>

text \<open>
  Claim C8. For a compiler named \<^verbatim>\<open>server\<close>, \<^verbatim>\<open>setupServerHooks\<close> taps nothing: the compiler
  is returned as it was. For any other compiler exactly three registrations are made, each
  under the name \<^verbatim>\<open>modern-dev-server\<close>: \<^verbatim>\<open>onInvalid\<close> is appended to the \<^verbatim>\<open>compile\<close> point,
  \<^verbatim>\<open>onInvalid\<close> to the \<^verbatim>\<open>invalid\<close> point and \<^verbatim>\<open>onDone\<close> to the \<^verbatim>\<open>done\<close> point; the earlier taps
  and the name are kept.
\<close>

theorem setupServerHooks_wiring:
  "(compiler_name c = Some ''server'' \<longrightarrow> setupServerHooks c cb = c) \<and>
   (compiler_name c \<noteq> Some ''server'' \<longrightarrow>
      hook_compile (hooks (setupServerHooks c cb))
        = hook_compile (hooks c) @ [(''modern-dev-server'', onInvalid cb)] \<and>
      hook_invalid (hooks (setupServerHooks c cb))
        = hook_invalid (hooks c) @ [(''modern-dev-server'', onInvalid cb)] \<and>
      hook_done (hooks (setupServerHooks c cb))
        = hook_done (hooks c) @ [(''modern-dev-server'', onDone cb)] \<and>
      compiler_name (setupServerHooks c cb) = compiler_name c)"
  by (simp add: setupServerHooks_def tap_def)

theorem setupServerHooks_wiring_witness:
  "setupServerHooks ex_server_compiler ex_callbacks = ex_server_compiler \<and>
   hook_compile (hooks (setupServerHooks ex_web_compiler ex_callbacks))
     = [(''modern-dev-server'', 1)] \<and>
   hook_invalid (hooks (setupServerHooks ex_web_compiler ex_callbacks))
     = [(''modern-dev-server'', 1)] \<and>
   hook_done (hooks (setupServerHooks ex_web_compiler ex_callbacks))
     = [(''other'', 7), (''modern-dev-server'', 2)] \<and>
   compiler_name (setupServerHooks ex_web_compiler ex_callbacks) = Some ''web''"
  using setupServerHooks_wiring [of ex_server_compiler ex_callbacks]
    setupServerHooks_wiring [of ex_web_compiler ex_callbacks]
  by (simp add: ex_server_compiler_def ex_web_compiler_def ex_callbacks_def)

section \<open>The requested port\<close>

lemma is_get_port_prologue: "is_get_port e \<Longrightarrow> prologue_event e"
  by (cases e) simp_all

lemma set_node_env_no_get_port: "set_node_env env = (env', evs) \<Longrightarrow> filter is_get_port evs = []"
  by (auto simp: set_node_env_def split: if_splits)

lemma print_urls_stage_no_get_port:
  "print_urls_stage P urls = (evs, r) \<Longrightarrow> filter is_get_port evs = []"
  by (auto simp: print_urls_stage_def
        split: printURLs_option.splits sum.splits printURLs_return.splits if_splits)

lemma server_stage_no_get_port:
  "server_stage mk ctx opts so host port urls = (evs, out) \<Longrightarrow> filter is_get_port evs = []"
  by (auto simp: filter_empty_conv dest: server_stage_no_prologue is_get_port_prologue)

text \<open>
  Claim C10. Every run calls the port resolver exactly once, and the port it requests is
  \<^verbatim>\<open>rsbuildConfig.dev.port\<close> when that value is truthy (set and not 0) and \<^verbatim>\<open>DEFAULT_PORT\<close>
  otherwise: a configured port of 0 requests \<^verbatim>\<open>DEFAULT_PORT\<close>, just as an unset port or a
  missing \<^verbatim>\<open>dev\<close> section does.
\<close>

theorem startDevServer_requested_port:
  "filter is_get_port (trace (startDevServer ext mk ctx opts env))
     = [GetPort (requested_port ext (config ctx)) (effective_strictPort opts)
          (opt_getPortSilently opts)] \<and>
   (\<forall>d p. dev (config ctx) = Some d \<and> dev_port d = Some p \<and> p \<noteq> 0 \<longrightarrow>
      requested_port ext (config ctx) = p) \<and>
   (\<forall>d. dev (config ctx) = Some d \<and> dev_port d = Some 0 \<longrightarrow>
      requested_port ext (config ctx) = DEFAULT_PORT ext) \<and>
   (\<forall>d. dev (config ctx) = Some d \<and> dev_port d = None \<longrightarrow>
      requested_port ext (config ctx) = DEFAULT_PORT ext) \<and>
   (dev (config ctx) = None \<longrightarrow> requested_port ext (config ctx) = DEFAULT_PORT ext)"
proof -
  have "filter is_get_port (trace (startDevServer ext mk ctx opts env))
     = [GetPort (requested_port ext (config ctx)) (effective_strictPort opts)
          (opt_getPortSilently opts)]"
  proof (cases rule: startDevServer_cases [of env ext ctx opts mk])
    case port_rejected
    then show ?thesis by (simp add: set_node_env_no_get_port)
  next
    case print_rejected
    then show ?thesis by (simp add: set_node_env_no_get_port print_urls_stage_no_get_port)
  next
    case server_stage
    then show ?thesis
      by (simp add: set_node_env_no_get_port print_urls_stage_no_get_port server_stage_no_get_port)
  qed
  then show ?thesis by (simp add: requested_port_def)
qed

theorem startDevServer_requested_port_witness:
  "filter is_get_port (trace (startDevServer ex_externals ex_factory ex_context ex_options Map.empty))
     = [GetPort 3000 False None] \<and>
   filter is_get_port
     (trace (startDevServer ex_externals ex_factory ex_context_port_zero ex_options Map.empty))
     = [GetPort 8080 False None] \<and>
   filter is_get_port
     (trace (startDevServer ex_externals ex_factory ex_context_no_port ex_options Map.empty))
     = [GetPort 8080 False None] \<and>
   filter is_get_port
     (trace (startDevServer ex_externals ex_factory ex_context_no_dev ex_options Map.empty))
     = [GetPort 8080 False None]"
  using startDevServer_requested_port [of ex_externals ex_factory ex_context ex_options Map.empty]
    startDevServer_requested_port [of ex_externals ex_factory ex_context_port_zero ex_options Map.empty]
    startDevServer_requested_port [of ex_externals ex_factory ex_context_no_port ex_options Map.empty]
    startDevServer_requested_port [of ex_externals ex_factory ex_context_no_dev ex_options Map.empty]
  by (simp add: ex_defs effective_strictPort_def)

section \<open>From listening to the result\<close>

text \<open>
  Claim C1. In every run in which the listen callback reports success, the port was
  resolved, the \<^verbatim>\<open>printURLs\<close> block left a URL list and the factory returned a server; the
  after-start hook is called exactly once, with the payload \<^verbatim>\<open>{ port }\<close> of the resolved
  port. When every callback of the hook fulfils, the run resolves with
  \<^verbatim>\<open>{ port, urls, server }\<close>, where \<open>urls\<close> are the \<open>url\<close> fields of that list, and \<^verbatim>\<open>resolve\<close> is
  the last step of the run: the hook call and every registered callback come before it.
  When a callback rejects, \<^verbatim>\<open>resolve\<close> is never called.
\<close>

theorem after_start_hook_then_resolve:
  assumes "ListenCallbackRun None \<in> set (trace (startDevServer ext mk ctx opts env))"
  shows "\<exists>port us server.
     port_result ext ctx opts = Inr port \<and>
     printed_urls ext ctx opts port = Inr us \<and>
     created_server mk ext ctx opts port = Inr server \<and>
     filter (is_hook_call OnAfterStartDevServer) (trace (startDevServer ext mk ctx opts env))
       = [HookCall OnAfterStartDevServer (Some port)] \<and>
     (case first_rejection (onAfterStartDevServerHook ctx) (Some port) of
        None \<Rightarrow>
          outcome (startDevServer ext mk ctx opts env)
            = Resolved \<lparr>res_port = port, res_urls = map url us, res_server = server\<rparr> \<and>
          (\<exists>pre. trace (startDevServer ext mk ctx opts env) = pre @ [ResolveCalled] \<and>
             ResolveCalled \<notin> set pre \<and>
             HookCall OnAfterStartDevServer (Some port) \<in> set pre \<and>
             filter (is_hook_callback OnAfterStartDevServer) pre
               = map (\<lambda>j. HookCallback OnAfterStartDevServer j (Some port))
                   [0..<length (onAfterStartDevServerHook ctx)])
      | Some ie \<Rightarrow>
          outcome (startDevServer ext mk ctx opts env) = Pending (Some (snd ie)) \<and>
          ResolveCalled \<notin> set (trace (startDevServer ext mk ctx opts env)))"
proof (cases rule: run_cases [where ext=ext and mk=mk and ctx=ctx and opts=opts and env=env])
  case (port_rejected pro e)
  with assms show ?thesis by (auto dest: prologue_notin)
next
  case (print_rejected pro port e)
  with assms show ?thesis by (auto dest: prologue_notin)
next
  case (factory_rejected pro port us e)
  with assms show ?thesis by (auto dest: prologue_notin)
next
  case (before_rejected pro port us server cbevs e)
  with assms show ?thesis by (auto dest: prologue_notin run_callbacks_events)
next
  case (init_rejected pro port us server cbevs e)
  with assms show ?thesis by (auto dest: prologue_notin run_callbacks_events)
next
  case (listening pro port us server cbevs evsL)
  note pro = prologue_filter [OF listening(6)] prologue_notin [OF listening(6)]
  note before = run_callbacks_filter_other [OF listening(4)] run_callbacks_notin [OF listening(4)]
  have in_evsL: "ListenCallbackRun None \<in> set evsL"
    using assms listening(8) pro(2) [of "ListenCallbackRun None"] before(2) [of "ListenCallbackRun None"]
    by auto
  show ?thesis
  proof (cases rule: listen_promise_cases [of server "bound_context ext ctx opts port"
           "resolve_host ext (effective_serverOptions opts)" port us])
    case (throws e)
    with listening(7) in_evsL show ?thesis by auto
  next
    case silent
    with listening(7) in_evsL show ?thesis by auto
  next
    case (callback_error e)
    with listening(7) in_evsL show ?thesis by auto
  next
    case (hook_rejected cbevs' e)
    note after = run_callbacks_filter_other [OF hook_rejected(2)] run_callbacks_notin [OF hook_rejected(2)]
    from hook_rejected(2) obtain ie where
      ie: "first_rejection (onAfterStartDevServerHook ctx) (Some port) = Some ie" "snd ie = e"
      by (auto simp: run_callbacks_closed split: option.splits)
    have evsL: "evsL = [ServerListen (resolve_host ext (effective_serverOptions opts)) port,
        ListenCallbackRun None, Debug ''listen dev server done'',
        HookCall OnAfterStartDevServer (Some port)] @ cbevs'"
      and out: "outcome (startDevServer ext mk ctx opts env) = Pending (Some e)"
      using hook_rejected(3) listening(7) by simp_all
    have "filter (is_hook_call OnAfterStartDevServer) (trace (startDevServer ext mk ctx opts env))
       = [HookCall OnAfterStartDevServer (Some port)]"
      using listening(8) evsL
      by (simp add: pro(1) before(1) after(1) is_hook_call_not_prologue)
    moreover have "ResolveCalled \<notin> set (trace (startDevServer ext mk ctx opts env))"
      using listening(8) evsL by (simp add: pro(2) before(2) after(2))
    ultimately show ?thesis
      using listening(1,2,3) ie out by auto
  next
    case (resolved cbevs')
    note after = run_callbacks_filter_other [OF resolved(2)] run_callbacks_notin [OF resolved(2)]
    from resolved(2) have
      none: "first_rejection (onAfterStartDevServerHook ctx) (Some port) = None" and
      cbevs': "cbevs' = map (\<lambda>j. HookCallback OnAfterStartDevServer j (Some port))
                 [0..<length (onAfterStartDevServerHook ctx)]"
      by (auto simp: run_callbacks_closed split: option.splits)
    have evsL: "evsL = [ServerListen (resolve_host ext (effective_serverOptions opts)) port,
        ListenCallbackRun None, Debug ''listen dev server done'',
        HookCall OnAfterStartDevServer (Some port)] @ cbevs' @ [ResolveCalled]"
      and out: "outcome (startDevServer ext mk ctx opts env)
        = Resolved \<lparr>res_port = port, res_urls = map url us, res_server = server\<rparr>"
      using resolved(3) listening(7) by simp_all
    define pre where "pre = pro @ CreateDevServer port # HookCall OnBeforeStartDevServer None # cbevs
        @ [Debug ''listen dev server'', ServerInit,
           ServerListen (resolve_host ext (effective_serverOptions opts)) port,
           ListenCallbackRun None, Debug ''listen dev server done'',
           HookCall OnAfterStartDevServer (Some port)] @ cbevs'"
    have tr: "trace (startDevServer ext mk ctx opts env) = pre @ [ResolveCalled]"
      using listening(8) evsL by (simp add: pre_def)
    have calls: "filter (is_hook_call OnAfterStartDevServer) (trace (startDevServer ext mk ctx opts env))
       = [HookCall OnAfterStartDevServer (Some port)]"
      using listening(8) evsL
      by (simp add: pro(1) before(1) after(1) is_hook_call_not_prologue)
    have no_resolve: "ResolveCalled \<notin> set pre"
      by (simp add: pre_def pro(2) before(2) after(2))
    have call_in: "HookCall OnAfterStartDevServer (Some port) \<in> set pre"
      by (simp add: pre_def)
    have cbs: "filter (is_hook_callback OnAfterStartDevServer) pre = cbevs'"
      by (simp add: pre_def pro(1) before(1) is_hook_callback_not_prologue
            run_callbacks_filter_same [OF resolved(2)])
    show ?thesis
      using listening(1,2,3) none out tr calls no_resolve call_in cbs cbevs' by auto
  qed
qed

theorem after_start_hook_then_resolve_witness:
  "ListenCallbackRun None
     \<in> set (trace (startDevServer ex_externals ex_factory ex_context ex_options Map.empty)) \<and>
   filter (is_hook_call OnAfterStartDevServer)
     (trace (startDevServer ex_externals ex_factory ex_context ex_options Map.empty))
     = [HookCall OnAfterStartDevServer (Some 3000)] \<and>
   outcome (startDevServer ex_externals ex_factory ex_context ex_options Map.empty)
     = Resolved \<lparr>res_port = 3000, res_urls = [''http://localhost:3000''], res_server = ex_server\<rparr>"
proof -
  have h: "ListenCallbackRun None
     \<in> set (trace (startDevServer ex_externals ex_factory ex_context ex_options Map.empty))"
    by (simp add: run_defs ex_defs)
  from after_start_hook_then_resolve [OF h] obtain port us server where
    p: "port_result ex_externals ex_context ex_options = Inr port" and
    u: "printed_urls ex_externals ex_context ex_options port = Inr us" and
    s: "created_server ex_factory ex_externals ex_context ex_options port = Inr server" and
    f: "filter (is_hook_call OnAfterStartDevServer)
          (trace (startDevServer ex_externals ex_factory ex_context ex_options Map.empty))
          = [HookCall OnAfterStartDevServer (Some port)]" and
    c: "case first_rejection (onAfterStartDevServerHook ex_context) (Some port) of
          None \<Rightarrow>
            outcome (startDevServer ex_externals ex_factory ex_context ex_options Map.empty)
              = Resolved \<lparr>res_port = port, res_urls = map url us, res_server = server\<rparr> \<and>
            (\<exists>pre. trace (startDevServer ex_externals ex_factory ex_context ex_options Map.empty)
                     = pre @ [ResolveCalled] \<and>
               ResolveCalled \<notin> set pre \<and>
               HookCall OnAfterStartDevServer (Some port) \<in> set pre \<and>
               filter (is_hook_callback OnAfterStartDevServer) pre
                 = map (\<lambda>j. HookCallback OnAfterStartDevServer j (Some port))
                     [0..<length (onAfterStartDevServerHook ex_context)])
        | Some ie \<Rightarrow>
            outcome (startDevServer ex_externals ex_factory ex_context ex_options Map.empty)
              = Pending (Some (snd ie)) \<and>
            ResolveCalled
              \<notin> set (trace (startDevServer ex_externals ex_factory ex_context ex_options Map.empty))"
    by blast
  from p have port: "port = 3000" by (simp add: run_defs ex_defs)
  from u port have us: "us = [\<lparr>url = ''http://localhost:3000'', label = ''Local''\<rparr>]"
    by (simp add: run_defs ex_defs)
  from s have server: "server = ex_server" by (simp add: run_defs ex_factory_def)
  have "first_rejection (onAfterStartDevServerHook ex_context) (Some port) = None"
    by (simp add: ex_context_def)
  with c port us server f h show ?thesis by simp
qed

section \<open>The before-start hook and the server factory\<close>




section \<open>Failures of port resolution and of listening\<close>

lemma is_after_start_not_prologue: "is_after_start x \<Longrightarrow> \<not> prologue_event x"
  by (cases x) simp_all

text \<open>
  Claim C3. When port resolution rejects with an error, the run rejects with that error
  and nothing of the after-start hook runs. When the listen callback reports an error,
  nothing of the after-start hook runs either, but the run does not reject: the error is
  thrown inside the \<^verbatim>\<open>async\<close> callback, so it rejects the callback's own promise, and the
  promise returned by \<^verbatim>\<open>startDevServer\<close>, whose executor takes \<^verbatim>\<open>resolve\<close> only, never
  settles.
\<close>

theorem start_failure_outcomes:
  "(port_result ext ctx opts = Inl e \<longrightarrow>
      outcome (startDevServer ext mk ctx opts env) = Rejected e \<and>
      filter is_after_start (trace (startDevServer ext mk ctx opts env)) = []) \<and>
   (ListenCallbackRun (Some e) \<in> set (trace (startDevServer ext mk ctx opts env)) \<longrightarrow>
      outcome (startDevServer ext mk ctx opts env) = Pending (Some e) \<and>
      filter is_after_start (trace (startDevServer ext mk ctx opts env)) = [])"
proof (cases rule: run_cases [where ext=ext and mk=mk and ctx=ctx and opts=opts and env=env])
  case (port_rejected pro e')
  then show ?thesis
    by (auto simp: filter_empty_conv dest: is_after_start_not_prologue)
next
  case (print_rejected pro port e')
  then show ?thesis by (auto dest: prologue_notin)
next
  case (factory_rejected pro port us e')
  then show ?thesis by (auto dest: prologue_notin)
next
  case (before_rejected pro port us server cbevs e')
  then show ?thesis by (auto dest: prologue_notin run_callbacks_events)
next
  case (init_rejected pro port us server cbevs e')
  then show ?thesis by (auto dest: prologue_notin run_callbacks_events)
next
  case (listening pro port us server cbevs evsL)
  note pro = prologue_filter [OF listening(6)] prologue_notin [OF listening(6)]
  note before = run_callbacks_filter_other [OF listening(4)] run_callbacks_notin [OF listening(4)]
  show ?thesis
  proof (intro conjI impI)
    assume "port_result ext ctx opts = Inl e"
    with listening(1) show "outcome (startDevServer ext mk ctx opts env) = Rejected e"
      and "filter is_after_start (trace (startDevServer ext mk ctx opts env)) = []"
      by simp_all
  next
    assume a: "ListenCallbackRun (Some e) \<in> set (trace (startDevServer ext mk ctx opts env))"
    then have in_evsL: "ListenCallbackRun (Some e) \<in> set evsL"
      using listening(8) pro(2) [of "ListenCallbackRun (Some e)"]
        before(2) [of "ListenCallbackRun (Some e)"]
      by auto
    have "outcome (startDevServer ext mk ctx opts env) = Pending (Some e) \<and> filter is_after_start evsL = []"
      using listening(7) in_evsL
      by (cases rule: listen_promise_cases [of server "bound_context ext ctx opts port"
           "resolve_host ext (effective_serverOptions opts)" port us])
         (auto dest: run_callbacks_events)
    then show "outcome (startDevServer ext mk ctx opts env) = Pending (Some e)"
      and "filter is_after_start (trace (startDevServer ext mk ctx opts env)) = []"
      using listening(8) by (simp_all add: pro before is_after_start_not_prologue)
  qed
qed

theorem start_failure_outcomes_witness:
  "ListenCallbackRun (Some (Error ''listen EADDRINUSE''))
     \<in> set (trace (startDevServer ex_externals ex_failing_factory ex_context ex_options Map.empty)) \<and>
   outcome (startDevServer ex_externals ex_failing_factory ex_context ex_options Map.empty)
     = Pending (Some (Error ''listen EADDRINUSE'')) \<and>
   outcome (startDevServer ex_externals ex_failing_factory ex_context ex_options Map.empty)
     \<noteq> Rejected (Error ''listen EADDRINUSE'') \<and>
   filter is_after_start
     (trace (startDevServer ex_externals ex_failing_factory ex_context ex_options Map.empty)) = [] \<and>
   outcome (startDevServer ex_busy_externals ex_factory ex_context ex_options Map.empty)
     = Rejected (Error ''Port is occupied'') \<and>
   filter is_after_start
     (trace (startDevServer ex_busy_externals ex_factory ex_context ex_options Map.empty)) = []"
proof -
  have h: "ListenCallbackRun (Some (Error ''listen EADDRINUSE''))
     \<in> set (trace (startDevServer ex_externals ex_failing_factory ex_context ex_options Map.empty))"
    by (simp add: run_defs ex_defs)
  have p: "port_result ex_busy_externals ex_context ex_options = Inl (Error ''Port is occupied'')"
    by (simp add: run_defs ex_defs)
  from h p
    start_failure_outcomes [of ex_externals ex_context ex_options "Error ''listen EADDRINUSE''"
      ex_failing_factory Map.empty]
    start_failure_outcomes [of ex_busy_externals ex_context ex_options "Error ''Port is occupied''"
      ex_factory Map.empty]
  show ?thesis by simp
qed

section \<open>A rejecting hook callback\<close>

lemma first_rejection_run:
  "first_rejection cbs p = Some (i, e) \<Longrightarrow>
     run_callbacks h cbs 0 p = (map (\<lambda>j. HookCallback h j p) [0..<Suc i], Some e)"
  by (simp add: run_callbacks_closed)

text \<open>
  Claim C5. When a callback of the before-start hook is the first to reject, the
  callbacks registered after it do not run and the run rejects with its error. When a
  callback of the after-start hook is the first to reject, the callbacks registered after
  it do not run and \<^verbatim>\<open>resolve\<close> is never called, but the run does not reject: the
  rejection stays in the listen callback's own promise and the returned promise never
  settles.
\<close>

theorem hook_rejection_outcomes:
  "(first_rejection (onBeforeStartDevServerHook ctx) None = Some (i, e) \<and>
    HookCall OnBeforeStartDevServer None \<in> set (trace (startDevServer ext mk ctx opts env)) \<longrightarrow>
      outcome (startDevServer ext mk ctx opts env) = Rejected e \<and>
      filter (is_hook_callback OnBeforeStartDevServer) (trace (startDevServer ext mk ctx opts env))
        = map (\<lambda>j. HookCallback OnBeforeStartDevServer j None) [0..<Suc i]) \<and>
   (first_rejection (onAfterStartDevServerHook ctx) (Some port) = Some (i, e) \<and>
    HookCall OnAfterStartDevServer (Some port) \<in> set (trace (startDevServer ext mk ctx opts env)) \<longrightarrow>
      outcome (startDevServer ext mk ctx opts env) = Pending (Some e) \<and>
      filter (is_hook_callback OnAfterStartDevServer) (trace (startDevServer ext mk ctx opts env))
        = map (\<lambda>j. HookCallback OnAfterStartDevServer j (Some port)) [0..<Suc i] \<and>
      ResolveCalled \<notin> set (trace (startDevServer ext mk ctx opts env)))"
proof (cases rule: run_cases [where ext=ext and mk=mk and ctx=ctx and opts=opts and env=env])
  case (port_rejected pro e')
  then show ?thesis by (auto dest: prologue_notin)
next
  case (print_rejected pro port' e')
  then show ?thesis by (auto dest: prologue_notin)
next
  case (factory_rejected pro port' us e')
  then show ?thesis by (auto dest: prologue_notin)
next
  case (before_rejected pro port' us server cbevs e')
  note pro = prologue_filter [OF before_rejected(5)] prologue_notin [OF before_rejected(5)]
  note before = run_callbacks_filter_other [OF before_rejected(4)]
    run_callbacks_notin [OF before_rejected(4)]
    run_callbacks_filter_same [OF before_rejected(4)]
  show ?thesis
  proof (intro conjI impI; elim conjE)
    assume "first_rejection (onBeforeStartDevServerHook ctx) None = Some (i, e)"
    from first_rejection_run [OF this, of OnBeforeStartDevServer] before_rejected(4)
    have "cbevs = map (\<lambda>j. HookCallback OnBeforeStartDevServer j None) [0..<Suc i]" "e' = e"
      by simp_all
    then show "outcome (startDevServer ext mk ctx opts env) = Rejected e"
      and "filter (is_hook_callback OnBeforeStartDevServer) (trace (startDevServer ext mk ctx opts env))
        = map (\<lambda>j. HookCallback OnBeforeStartDevServer j None) [0..<Suc i]"
      using before_rejected(6,7) before(3)
      by (simp_all add: pro(1) is_hook_callback_not_prologue)
  next
    assume "HookCall OnAfterStartDevServer (Some port) \<in> set (trace (startDevServer ext mk ctx opts env))"
    then have False using before_rejected(6) by (simp add: pro(2) before(2))
    then show "outcome (startDevServer ext mk ctx opts env) = Pending (Some e)"
      and "filter (is_hook_callback OnAfterStartDevServer) (trace (startDevServer ext mk ctx opts env))
        = map (\<lambda>j. HookCallback OnAfterStartDevServer j (Some port)) [0..<Suc i]"
      and "ResolveCalled \<notin> set (trace (startDevServer ext mk ctx opts env))"
      by simp_all
  qed
next
  case (init_rejected pro port' us server cbevs e')
  note pro = prologue_filter [OF init_rejected(6)] prologue_notin [OF init_rejected(6)]
  note before = run_callbacks_filter_other [OF init_rejected(4)]
    run_callbacks_notin [OF init_rejected(4)]
  show ?thesis
  proof (intro conjI impI; elim conjE)
    assume "first_rejection (onBeforeStartDevServerHook ctx) None = Some (i, e)"
    from first_rejection_run [OF this, of OnBeforeStartDevServer] init_rejected(4)
    have False by simp
    then show "outcome (startDevServer ext mk ctx opts env) = Rejected e"
      and "filter (is_hook_callback OnBeforeStartDevServer) (trace (startDevServer ext mk ctx opts env))
        = map (\<lambda>j. HookCallback OnBeforeStartDevServer j None) [0..<Suc i]"
      by simp_all
  next
    assume "HookCall OnAfterStartDevServer (Some port) \<in> set (trace (startDevServer ext mk ctx opts env))"
    then have False using init_rejected(7) by (simp add: pro(2) before(2))
    then show "outcome (startDevServer ext mk ctx opts env) = Pending (Some e)"
      and "filter (is_hook_callback OnAfterStartDevServer) (trace (startDevServer ext mk ctx opts env))
        = map (\<lambda>j. HookCallback OnAfterStartDevServer j (Some port)) [0..<Suc i]"
      and "ResolveCalled \<notin> set (trace (startDevServer ext mk ctx opts env))"
      by simp_all
  qed
next
  case (listening pro port' us server cbevs evsL)
  note pro = prologue_filter [OF listening(6)] prologue_notin [OF listening(6)]
  note before = run_callbacks_filter_other [OF listening(4)]
    run_callbacks_notin [OF listening(4)]
  show ?thesis
  proof (intro conjI impI; elim conjE)
    assume "first_rejection (onBeforeStartDevServerHook ctx) None = Some (i, e)"
    from first_rejection_run [OF this, of OnBeforeStartDevServer] listening(4)
    have False by simp
    then show "outcome (startDevServer ext mk ctx opts env) = Rejected e"
      and "filter (is_hook_callback OnBeforeStartDevServer) (trace (startDevServer ext mk ctx opts env))
        = map (\<lambda>j. HookCallback OnBeforeStartDevServer j None) [0..<Suc i]"
      by simp_all
  next
    assume fr: "first_rejection (onAfterStartDevServerHook ctx) (Some port) = Some (i, e)"
      and "HookCall OnAfterStartDevServer (Some port) \<in> set (trace (startDevServer ext mk ctx opts env))"
    then have in_evsL: "HookCall OnAfterStartDevServer (Some port) \<in> set evsL"
      using listening(8) by (simp add: pro(2) before(2))
    have "outcome (startDevServer ext mk ctx opts env) = Pending (Some e) \<and>
      filter (is_hook_callback OnAfterStartDevServer) evsL
        = map (\<lambda>j. HookCallback OnAfterStartDevServer j (Some port)) [0..<Suc i] \<and>
      ResolveCalled \<notin> set evsL"
    proof (cases rule: listen_promise_cases [of server "bound_context ext ctx opts port'"
           "resolve_host ext (effective_serverOptions opts)" port' us])
      case (throws e'')
      with listening(7) in_evsL show ?thesis by auto
    next
      case silent
      with listening(7) in_evsL show ?thesis by auto
    next
      case (callback_error e'')
      with listening(7) in_evsL show ?thesis by auto
    next
      case (hook_rejected cbevs' e'')
      have evsL: "evsL = [ServerListen (resolve_host ext (effective_serverOptions opts)) port',
          ListenCallbackRun None, Debug ''listen dev server done'',
          HookCall OnAfterStartDevServer (Some port')] @ cbevs'"
        and out: "outcome (startDevServer ext mk ctx opts env) = Pending (Some e'')"
        using hook_rejected(3) listening(7) by simp_all
      have "port' = port"
        using in_evsL evsL run_callbacks_notin [OF hook_rejected(2), of "HookCall OnAfterStartDevServer (Some port)"]
        by auto
      with first_rejection_run [OF fr, of OnAfterStartDevServer] hook_rejected(2)
      have "cbevs' = map (\<lambda>j. HookCallback OnAfterStartDevServer j (Some port)) [0..<Suc i]" "e'' = e"
        by simp_all
      with evsL out \<open>port' = port\<close> show ?thesis by auto
    next
      case (resolved cbevs')
      have evsL: "evsL = [ServerListen (resolve_host ext (effective_serverOptions opts)) port',
          ListenCallbackRun None, Debug ''listen dev server done'',
          HookCall OnAfterStartDevServer (Some port')] @ cbevs' @ [ResolveCalled]"
        using resolved(3) listening(7) by simp
      have "port' = port"
        using in_evsL evsL run_callbacks_notin [OF resolved(2), of "HookCall OnAfterStartDevServer (Some port)"]
        by auto
      with first_rejection_run [OF fr, of OnAfterStartDevServer] resolved(2)
      have False by simp
      then show ?thesis ..
    qed
    then show "outcome (startDevServer ext mk ctx opts env) = Pending (Some e)"
      and "filter (is_hook_callback OnAfterStartDevServer) (trace (startDevServer ext mk ctx opts env))
        = map (\<lambda>j. HookCallback OnAfterStartDevServer j (Some port)) [0..<Suc i]"
      and "ResolveCalled \<notin> set (trace (startDevServer ext mk ctx opts env))"
      using listening(8) by (simp_all add: pro before is_hook_callback_not_prologue)
  qed
qed

theorem hook_rejection_outcomes_witness:
  "HookCall OnBeforeStartDevServer None
     \<in> set (trace (startDevServer ex_externals ex_factory ex_context_before_fails ex_options Map.empty)) \<and>
   outcome (startDevServer ex_externals ex_factory ex_context_before_fails ex_options Map.empty)
     = Rejected (Error ''callback failed'') \<and>
   filter (is_hook_callback OnBeforeStartDevServer)
     (trace (startDevServer ex_externals ex_factory ex_context_before_fails ex_options Map.empty))
     = [HookCallback OnBeforeStartDevServer 0 None, HookCallback OnBeforeStartDevServer 1 None] \<and>
   HookCall OnAfterStartDevServer (Some 3000)
     \<in> set (trace (startDevServer ex_externals ex_factory ex_context_after_fails ex_options Map.empty)) \<and>
   outcome (startDevServer ex_externals ex_factory ex_context_after_fails ex_options Map.empty)
     = Pending (Some (Error ''callback failed'')) \<and>
   outcome (startDevServer ex_externals ex_factory ex_context_after_fails ex_options Map.empty)
     \<noteq> Rejected (Error ''callback failed'') \<and>
   filter (is_hook_callback OnAfterStartDevServer)
     (trace (startDevServer ex_externals ex_factory ex_context_after_fails ex_options Map.empty))
     = [HookCallback OnAfterStartDevServer 0 (Some 3000),
        HookCallback OnAfterStartDevServer 1 (Some 3000)] \<and>
   ResolveCalled
     \<notin> set (trace (startDevServer ex_externals ex_factory ex_context_after_fails ex_options Map.empty))"
proof -
  have b: "first_rejection (onBeforeStartDevServerHook ex_context_before_fails) None
             = Some (1, Error ''callback failed'')"
    and a: "first_rejection (onAfterStartDevServerHook ex_context_after_fails) (Some 3000)
             = Some (1, Error ''callback failed'')"
    by (simp_all add: ex_defs)
  have hb: "HookCall OnBeforeStartDevServer None
     \<in> set (trace (startDevServer ex_externals ex_factory ex_context_before_fails ex_options Map.empty))"
    and ha: "HookCall OnAfterStartDevServer (Some 3000)
     \<in> set (trace (startDevServer ex_externals ex_factory ex_context_after_fails ex_options Map.empty))"
    by (simp_all add: run_defs ex_defs)
  have upt: "[0..<Suc (Suc 0)] = [0, Suc 0]" by (simp add: upt_rec)
  from a b ha hb
    hook_rejection_outcomes [of ex_context_before_fails 1 "Error ''callback failed''"
      ex_externals ex_factory ex_options Map.empty 3000]
    hook_rejection_outcomes [of ex_context_after_fails 1 "Error ''callback failed''"
      ex_externals ex_factory ex_options Map.empty 3000]
  show ?thesis by (simp add: upt)
qed

section \<open>The URL list of a run\<close>

lemma is_print_prologue: "is_print x \<Longrightarrow> prologue_event x"
  by (cases x) simp_all

lemma set_node_env_no_print: "set_node_env env = (env', evs) \<Longrightarrow> filter is_print evs = []"
  by (auto simp: set_node_env_def split: if_splits)

lemma server_stage_no_print:
  "server_stage mk ctx opts so host port urls = (evs, out) \<Longrightarrow> filter is_print evs = []"
  by (auto simp: filter_empty_conv dest: server_stage_no_prologue is_print_prologue)

lemma set_node_env_no_create: "set_node_env env = (env', evs) \<Longrightarrow> filter is_create evs = []"
  by (auto simp: set_node_env_def split: if_splits)

lemma listen_promise_resolved_urls:
  "listen_promise ctx host port us server = (evs, Resolved res) \<Longrightarrow> res_urls res = map url us"
  by (cases rule: listen_promise_cases [of server ctx host port us]) auto

lemma server_stage_resolved_urls:
  "server_stage mk ctx opts so host port us = (evs, Resolved res) \<Longrightarrow> res_urls res = map url us"
  by (cases rule: server_stage_cases [of mk ctx port so opts host us])
     (auto dest: listen_promise_resolved_urls)

text \<open>
  Claim C6. In a run whose port was resolved and whose \<^verbatim>\<open>printURLs\<close> option is a function
  that returns: when the returned value is not an array the run rejects with the error
  \<^verbatim>\<open>Please return an array in the `printURLs` function.\<close>, the server factory is never
  called and nothing is printed; when it is an array, that array is the list that is
  printed, once, and the list whose \<open>url\<close> fields are the \<open>urls\<close> of the result if the run
  resolves.
\<close>

theorem printURLs_function_result:
  assumes "port_result ext ctx opts = Inr port"
    and "opt_printURLs opts = Some (PrintFn f)"
    and "f (computed_urls ext ctx opts port) = Inr ret"
  shows "(\<forall>v. ret = RetOther v \<longrightarrow>
            outcome (startDevServer ext mk ctx opts env)
              = Rejected (Error ''Please return an array in the `printURLs` function.'') \<and>
            filter is_create (trace (startDevServer ext mk ctx opts env)) = [] \<and>
            filter is_print (trace (startDevServer ext mk ctx opts env)) = []) \<and>
         (\<forall>us. ret = RetArray us \<longrightarrow>
            printed_urls ext ctx opts port = Inr us \<and>
            filter is_print (trace (startDevServer ext mk ctx opts env)) = [PrintServerURLs us] \<and>
            (\<forall>res. outcome (startDevServer ext mk ctx opts env) = Resolved res \<longrightarrow>
               res_urls res = map url us))"
proof (cases ret)
  case (RetOther v)
  with assms have stage:
    "print_urls_stage (effective_printURLs opts) (computed_urls ext ctx opts port)
       = ([PrintURLsCalled (computed_urls ext ctx opts port)],
          Inl (Error ''Please return an array in the `printURLs` function.''))"
    by (simp add: print_urls_stage_def effective_printURLs_def)
  show ?thesis
  proof (cases rule: startDevServer_cases [of env ext ctx opts mk])
    case (port_rejected env' evs0 e)
    with assms(1) show ?thesis by (simp add: port_result_def)
  next
    case (print_rejected env' evs0 port' evsP e)
    with assms(1) have "port' = port" by (simp add: port_result_def)
    with print_rejected(3) stage have
      "evsP = [PrintURLsCalled (computed_urls ext ctx opts port)]"
      "e = Error ''Please return an array in the `printURLs` function.''"
      by simp_all
    with print_rejected(1,4) RetOther show ?thesis
      by (simp add: set_node_env_no_create set_node_env_no_print)
  next
    case (server_stage env' evs0 port' evsP us evsS out)
    with assms(1) have "port' = port" by (simp add: port_result_def)
    with server_stage(3) stage show ?thesis by simp
  qed
next
  case (RetArray us)
  with assms have stage:
    "print_urls_stage (effective_printURLs opts) (computed_urls ext ctx opts port)
       = ([PrintURLsCalled (computed_urls ext ctx opts port), PrintServerURLs us], Inr us)"
    by (simp add: print_urls_stage_def effective_printURLs_def)
  show ?thesis
  proof (cases rule: startDevServer_cases [of env ext ctx opts mk])
    case (port_rejected env' evs0 e)
    with assms(1) show ?thesis by (simp add: port_result_def)
  next
    case (print_rejected env' evs0 port' evsP e)
    with assms(1) have "port' = port" by (simp add: port_result_def)
    with print_rejected(3) stage show ?thesis by simp
  next
    case (server_stage env' evs0 port' evsP us' evsS out)
    with assms(1) have "port' = port" by (simp add: port_result_def)
    with server_stage(3) stage have eq: "evsP = [PrintURLsCalled (computed_urls ext ctx opts port), PrintServerURLs us]" "us' = us"
      by auto
    from server_stage(4) have "\<forall>res. out = Resolved res \<longrightarrow> res_urls res = map url us"
      using eq(2) by (auto dest: server_stage_resolved_urls)
    with server_stage(1,4,5) eq stage RetArray show ?thesis
      by (simp add: printed_urls_def set_node_env_no_print server_stage_no_print)
  qed
qed

theorem printURLs_function_result_witness:
  "outcome (startDevServer ex_externals ex_factory ex_context ex_options_bad_printURLs Map.empty)
     = Rejected (Error ''Please return an array in the `printURLs` function.'') \<and>
   filter is_create
     (trace (startDevServer ex_externals ex_factory ex_context ex_options_bad_printURLs Map.empty)) = [] \<and>
   filter is_print
     (trace (startDevServer ex_externals ex_factory ex_context ex_options_custom_printURLs Map.empty))
     = [PrintServerURLs [\<lparr>url = ''http://example.test:3000'', label = ''Custom''\<rparr>]] \<and>
   outcome (startDevServer ex_externals ex_factory ex_context ex_options_custom_printURLs Map.empty)
     = Resolved \<lparr>res_port = 3000, res_urls = [''http://example.test:3000''], res_server = ex_server\<rparr>"
proof -
  have p1: "port_result ex_externals ex_context ex_options_bad_printURLs = Inr 3000"
    and p2: "port_result ex_externals ex_context ex_options_custom_printURLs = Inr 3000"
    by (simp_all add: run_defs ex_defs)
  have o1: "opt_printURLs ex_options_bad_printURLs
              = Some (PrintFn (\<lambda>urls. Inr (RetOther (NaStr ''nope''))))"
    and o2: "opt_printURLs ex_options_custom_printURLs
              = Some (PrintFn (\<lambda>urls. Inr (RetArray
                   [\<lparr>url = ''http://example.test:3000'', label = ''Custom''\<rparr>])))"
    by (simp_all add: ex_defs)
  have out: "outcome (startDevServer ex_externals ex_factory ex_context ex_options_custom_printURLs Map.empty)
     = Resolved \<lparr>res_port = 3000, res_urls = [''http://example.test:3000''], res_server = ex_server\<rparr>"
    by (simp add: run_defs ex_defs)
  from printURLs_function_result [OF p1 o1 refl, of ex_factory Map.empty]
    printURLs_function_result [OF p2 o2 refl, of ex_factory Map.empty] out
  show ?thesis by simp
qed

section \<open>Errors of \<^verbatim>\<open>init\<close>\<close>

lemma init_try_loadEnv_fails:
  "loadEnv w (cwd w) (cli_envMode cliOptions) = Inl err \<Longrightarrow> fst (init_try w cliOptions st) = Inl err"
  by (simp add: init_try_def)

lemma init_try_loadConfig_fails:
  "loadEnv w (cwd w) (cli_envMode cliOptions) = Inr envs \<Longrightarrow>
   (\<forall>path mode. loadConfig w (cwd w) path mode = Inl err) \<Longrightarrow>
   fst (init_try w cliOptions st) = Inl err"
  by (simp add: init_try_def Let_def)

lemma init_try_createRsbuild_fails:
  "loadEnv w (cwd w) (cli_envMode cliOptions) = Inr envs \<Longrightarrow>
   loadConfig w (cwd w) (co_config (commonOpts st)) (co_envMode (commonOpts st)) = Inr loaded \<Longrightarrow>
   (\<forall>files. watchFiles w files = None) \<Longrightarrow> importCreateRsbuild w = None \<Longrightarrow>
   (\<forall>cfg. createRsbuild w (cwd w) cfg = Inl err) \<Longrightarrow>
   fst (init_try w cliOptions st) = Inl err"
  by (cases loaded) (simp add: init_try_def init_after_config_def Let_def)

text \<open>
  Claim C9. With \<^verbatim>\<open>isRestart\<close> set to true \<^verbatim>\<open>init\<close> never rejects. When the \<^verbatim>\<open>try\<close> block
  throws an error, with \<^verbatim>\<open>isRestart\<close> true the error is appended to what the logger
  received and \<^verbatim>\<open>init\<close> returns \<^verbatim>\<open>undefined\<close>; with \<^verbatim>\<open>isRestart\<close> unset or false the same
  error is re-thrown and nothing is logged. The \<^verbatim>\<open>try\<close> block throws in particular when
  \<^verbatim>\<open>loadEnv\<close> throws, when \<^verbatim>\<open>loadEnv\<close> returns and \<^verbatim>\<open>loadConfig\<close> rejects, and when both
  return, watching and the import succeed and \<^verbatim>\<open>createRsbuild\<close> rejects.
\<close>

theorem init_error_handling:
  "(\<forall>e. fst (init w cliOptions (Some True) st) \<noteq> Inl e) \<and>
   (fst (init_try w cliOptions (store_cli_options cliOptions st)) = Inl err \<longrightarrow>
      fst (init w cliOptions (Some True) st) = Inr None \<and>
      logged_errors (snd (init w cliOptions (Some True) st))
        = logged_errors (snd (init_try w cliOptions (store_cli_options cliOptions st))) @ [err] \<and>
      init w cliOptions None st
        = (Inl err, snd (init_try w cliOptions (store_cli_options cliOptions st))) \<and>
      init w cliOptions (Some False) st
        = (Inl err, snd (init_try w cliOptions (store_cli_options cliOptions st)))) \<and>
   (loadEnv w (cwd w) (cli_envMode cliOptions) = Inl err \<longrightarrow>
      fst (init_try w cliOptions (store_cli_options cliOptions st)) = Inl err) \<and>
   ((\<exists>envs. loadEnv w (cwd w) (cli_envMode cliOptions) = Inr envs) \<and>
    (\<forall>path mode. loadConfig w (cwd w) path mode = Inl err) \<longrightarrow>
      fst (init_try w cliOptions (store_cli_options cliOptions st)) = Inl err) \<and>
   ((\<exists>envs. loadEnv w (cwd w) (cli_envMode cliOptions) = Inr envs) \<and>
    (\<exists>loaded. loadConfig w (cwd w)
                (co_config (commonOpts (store_cli_options cliOptions st)))
                (co_envMode (commonOpts (store_cli_options cliOptions st))) = Inr loaded) \<and>
    (\<forall>files. watchFiles w files = None) \<and> importCreateRsbuild w = None \<and>
    (\<forall>cfg. createRsbuild w (cwd w) cfg = Inl err) \<longrightarrow>
      fst (init_try w cliOptions (store_cli_options cliOptions st)) = Inl err)"
proof (intro conjI allI impI)
  fix e
  show "fst (init w cliOptions (Some True) st) \<noteq> Inl e"
    by (simp add: init_def split: prod.splits sum.splits)
next
  assume a: "fst (init_try w cliOptions (store_cli_options cliOptions st)) = Inl err"
  then obtain st' where t: "init_try w cliOptions (store_cli_options cliOptions st) = (Inl err, st')"
    by (cases "init_try w cliOptions (store_cli_options cliOptions st)") simp
  show "fst (init w cliOptions (Some True) st) = Inr None"
    and "logged_errors (snd (init w cliOptions (Some True) st))
        = logged_errors (snd (init_try w cliOptions (store_cli_options cliOptions st))) @ [err]"
    and "init w cliOptions None st
        = (Inl err, snd (init_try w cliOptions (store_cli_options cliOptions st)))"
    and "init w cliOptions (Some False) st
        = (Inl err, snd (init_try w cliOptions (store_cli_options cliOptions st)))"
    using t by (simp_all add: init_def)
next
  assume "loadEnv w (cwd w) (cli_envMode cliOptions) = Inl err"
  then show "fst (init_try w cliOptions (store_cli_options cliOptions st)) = Inl err"
    by (rule init_try_loadEnv_fails)
next
  assume "(\<exists>envs. loadEnv w (cwd w) (cli_envMode cliOptions) = Inr envs) \<and>
    (\<forall>path mode. loadConfig w (cwd w) path mode = Inl err)"
  then show "fst (init_try w cliOptions (store_cli_options cliOptions st)) = Inl err"
    by (auto intro: init_try_loadConfig_fails)
next
  assume "(\<exists>envs. loadEnv w (cwd w) (cli_envMode cliOptions) = Inr envs) \<and>
    (\<exists>loaded. loadConfig w (cwd w)
                (co_config (commonOpts (store_cli_options cliOptions st)))
                (co_envMode (commonOpts (store_cli_options cliOptions st))) = Inr loaded) \<and>
    (\<forall>files. watchFiles w files = None) \<and> importCreateRsbuild w = None \<and>
    (\<forall>cfg. createRsbuild w (cwd w) cfg = Inl err)"
  then show "fst (init_try w cliOptions (store_cli_options cliOptions st)) = Inl err"
    by (auto intro: init_try_createRsbuild_fails)
qed

theorem init_error_handling_witness:
  "fst (init ex_world_bad_env (Some ex_cli_options) (Some True) ex_cli_state) = Inr None \<and>
   logged_errors (snd (init ex_world_bad_env (Some ex_cli_options) (Some True) ex_cli_state))
     = [Error ''cannot read .env''] \<and>
   fst (init ex_world_bad_env (Some ex_cli_options) None ex_cli_state)
     = Inl (Error ''cannot read .env'') \<and>
   fst (init ex_world_bad_config (Some ex_cli_options) (Some True) ex_cli_state) = Inr None \<and>
   logged_errors (snd (init ex_world_bad_config (Some ex_cli_options) (Some True) ex_cli_state))
     = [Error ''SyntaxError in rsbuild.config.ts''] \<and>
   fst (init ex_world_bad_config (Some ex_cli_options) (Some False) ex_cli_state)
     = Inl (Error ''SyntaxError in rsbuild.config.ts'') \<and>
   fst (init ex_world_bad_create None (Some True) ex_cli_state) = Inr None \<and>
   logged_errors (snd (init ex_world_bad_create None (Some True) ex_cli_state))
     = [Error ''createRsbuild failed''] \<and>
   fst (init ex_world_bad_create None None ex_cli_state) = Inl (Error ''createRsbuild failed'')"
proof -
  have env: "loadEnv ex_world_bad_env (cwd ex_world_bad_env) (cli_envMode (Some ex_cli_options))
               = Inl (Error ''cannot read .env'')"
    by (simp add: ex_cli_defs)
  have cfg: "(\<exists>envs. loadEnv ex_world_bad_config (cwd ex_world_bad_config)
                       (cli_envMode (Some ex_cli_options)) = Inr envs) \<and>
             (\<forall>path mode. loadConfig ex_world_bad_config (cwd ex_world_bad_config) path mode
                = Inl (Error ''SyntaxError in rsbuild.config.ts''))"
    by (simp add: ex_cli_defs)
  have mk: "(\<exists>envs. loadEnv ex_world_bad_create (cwd ex_world_bad_create) (cli_envMode None)
                      = Inr envs) \<and>
            (\<exists>loaded. loadConfig ex_world_bad_create (cwd ex_world_bad_create)
                (co_config (commonOpts (store_cli_options None ex_cli_state)))
                (co_envMode (commonOpts (store_cli_options None ex_cli_state))) = Inr loaded) \<and>
            (\<forall>files. watchFiles ex_world_bad_create files = None) \<and>
            importCreateRsbuild ex_world_bad_create = None \<and>
            (\<forall>cfg. createRsbuild ex_world_bad_create (cwd ex_world_bad_create) cfg
               = Inl (Error ''createRsbuild failed''))"
    by (simp add: ex_cli_defs)
  have logs:
    "logged_errors (snd (init_try ex_world_bad_env (Some ex_cli_options)
        (store_cli_options (Some ex_cli_options) ex_cli_state))) = []"
    "logged_errors (snd (init_try ex_world_bad_config (Some ex_cli_options)
        (store_cli_options (Some ex_cli_options) ex_cli_state))) = []"
    "logged_errors (snd (init_try ex_world_bad_create None
        (store_cli_options None ex_cli_state))) = []"
    by (simp_all add: ex_cli_defs init_try_def init_after_config_def store_cli_options_def
          cli_envMode_def)
  from env cfg mk logs
    init_error_handling [of ex_world_bad_env "Some ex_cli_options" ex_cli_state
      "Error ''cannot read .env''"]
    init_error_handling [of ex_world_bad_config "Some ex_cli_options" ex_cli_state
      "Error ''SyntaxError in rsbuild.config.ts''"]
    init_error_handling [of ex_world_bad_create None ex_cli_state
      "Error ''createRsbuild failed''"]
  show ?thesis by simp
qed

section \<open>The precedence of the three tiers\<close>

lemma map_of_merge_fields:
  "map_of (merge_fields a b) k =
     (case map_of a k of None \<Rightarrow> None
      | Some v \<Rightarrow> Some (case map_of b k of None \<Rightarrow> v | Some w \<Rightarrow> merge_value v w))"
  by (induction a) auto

lemma map_of_filter_new:
  "map_of (filter (\<lambda>kv. map_of a (fst kv) = None) b) k =
     (if map_of a k = None then map_of b k else None)"
  by (induction b) auto

lemma get_merge_Obj:
  "get (merge_value (Obj a) (Obj b)) (k # ps) =
     (case map_of a k of
        None \<Rightarrow> (case map_of b k of None \<Rightarrow> Undefined | Some w \<Rightarrow> get w ps)
      | Some u \<Rightarrow> get (case map_of b k of None \<Rightarrow> u | Some w \<Rightarrow> merge_value u w) ps)"
  by (simp add: map_add_def map_of_merge_fields map_of_filter_new split: option.splits)

lemma merge_value_leaf: "defined_leaf v \<Longrightarrow> merge_value d v = v"
  by (cases d; cases v) (simp_all add: defined_leaf_def)

lemma merge_value_Undefined: "merge_value d Undefined = d"
  by (cases d) simp_all

lemma get_Undefined: "get Undefined p = Undefined"
  by (cases p) simp_all

lemma get_defined_Obj:
  assumes "get t (k # ps) = v" "defined_leaf v"
  obtains b w where "t = Obj b" "map_of b k = Some w" "get w ps = v"
  using assms by (cases t) (auto simp: defined_leaf_def split: option.splits)

lemma override_wins:
  "get t p = v \<Longrightarrow> defined_leaf v \<Longrightarrow> get (merge_value d t) p = v"
proof (induction p arbitrary: d t)
  case Nil
  then show ?case by (simp add: merge_value_leaf)
next
  case (Cons k ps)
  from Cons.prems obtain b w where t: "t = Obj b" and w: "map_of b k = Some w" "get w ps = v"
    by (rule get_defined_Obj)
  show ?case
  proof (cases d)
    case (Obj a)
    show ?thesis
    proof (cases "map_of a k")
      case None
      with Obj t w show ?thesis by (simp only: get_merge_Obj option.case)
    next
      case (Some u)
      have "get (merge_value u w) ps = v" using Cons.IH w(2) Cons.prems(2) by blast
      with Obj t w Some show ?thesis by (simp only: get_merge_Obj option.case)
    qed
  qed (use t w in simp_all)
qed

lemma untouched_get: "untouched t p \<Longrightarrow> get t p = Undefined"
  by (induction t p rule: untouched.induct) (simp_all add: get_Undefined split: option.splits)

lemma untouched_keeps:
  "untouched t p \<Longrightarrow> get (merge_value d t) p = get d p"
proof (induction p arbitrary: d t)
  case Nil
  then have "t = Undefined" by (cases t) simp_all
  then show ?case by (simp add: merge_value_Undefined)
next
  case (Cons k ps)
  show ?case
  proof (cases t)
    case Undefined
    then show ?thesis by (simp add: merge_value_Undefined)
  next
    case t: (Obj b)
    show ?thesis
    proof (cases d)
      case d: (Obj a)
      show ?thesis
      proof (cases "map_of b k")
        case None
        with d t show ?thesis
          by (simp only: get_merge_Obj get.simps option.case split: option.splits)
      next
        case (Some w)
        then have u: "untouched w ps" using Cons.prems t by simp
        show ?thesis
        proof (cases "map_of a k")
          case None
          with d t Some untouched_get [OF u] show ?thesis
            by (simp only: get_merge_Obj get.simps option.case)
        next
          case (Some u')
          have "get (merge_value u' w) ps = get u' ps" using Cons.IH u by blast
          with d t Some \<open>map_of b k = Some w\<close> show ?thesis
            by (simp only: get_merge_Obj get.simps option.case)
        qed
      qed
    qed (use t Cons.prems untouched_get [of t "k # ps"] in \<open>simp_all\<close>)
  qed (use Cons.prems in simp_all)
qed

text \<open>The two facts for the call itself.\<close>

lemma deepmerge_override_wins:
  "p \<noteq> [] \<Longrightarrow> get t p = v \<Longrightarrow> defined_leaf v \<Longrightarrow> get (deepmerge d t) p = v"
proof -
  assume p: "p \<noteq> []" and g: "get t p = v" and v: "defined_leaf v"
  from p obtain k ps where "p = k # ps" by (cases p) auto
  with g v obtain b where "t = Obj b"
    by (cases t) (simp_all add: defined_leaf_def)
  with g v show ?thesis by (simp add: override_wins)
qed

lemma deepmerge_leaves_untouched:
  "leaves_untouched t p \<Longrightarrow> get (deepmerge d t) p = get d p"
  by (cases t) (simp_all add: untouched_keeps)

lemma serverDevOverride_object:
  "p \<noteq> [] \<Longrightarrow> get (so_dev_value so) p = v \<Longrightarrow> defined_leaf v \<Longrightarrow>
     serverDevOverride so = so_dev_value so"
proof -
  assume p: "p \<noteq> []" and g: "get (so_dev_value so) p = v" and v: "defined_leaf v"
  from p obtain k ps where "p = k # ps" by (cases p) auto
  with g v obtain b where "so_dev_value so = Obj b"
    by (cases "so_dev_value so") (simp_all add: defined_leaf_def)
  then show ?thesis
    by (auto simp: serverDevOverride_def so_dev_value_def split: option.splits)
qed

lemma merge_fields_empty: "merge_fields a [] = a"
  by (induction a) simp_all

lemma deepmerge_empty_object: "deepmerge (Obj a) (Obj []) = Obj a"
  by (simp add: merge_fields_empty)

lemma serverDevOverride_cases:
  "serverDevOverride so = so_dev_value so \<or> serverDevOverride so = Obj []"
  by (simp add: serverDevOverride_def so_dev_value_def split: option.splits)

lemma server_tier_untouched:
  assumes "leaves_untouched (so_dev_value so) p"
  shows "get (deepmerge (builtinDevConfig cfg port) (serverDevOverride so)) p
           = get (builtinDevConfig cfg port) p"
proof -
  obtain a where a: "builtinDevConfig cfg port = Obj a"
    by (simp add: builtinDevConfig_def)
  from serverDevOverride_cases [of so] show ?thesis
  proof
    assume "serverDevOverride so = so_dev_value so"
    with assms show ?thesis by (simp add: deepmerge_leaves_untouched)
  next
    assume "serverDevOverride so = Obj []"
    with a show ?thesis by (simp only: deepmerge_empty_object)
  qed
qed

lemma getDevServerOptions_layers:
  "getDevServerOptions cfg so port =
     deepmerge (deepmerge (builtinDevConfig cfg port) (serverDevOverride so)) (toolsOverride cfg)"
  by (simp add: getDevServerOptions_def mergeChainedOptions_def defaultDevConfig_def
        toolsOverride_def split: option.splits)

text \<open>
  Claim C4, as amended. The value returned by \<^verbatim>\<open>getDevServerOptions\<close> obeys the precedence
  defaults < \<^verbatim>\<open>serverOptions.dev\<close> < \<^verbatim>\<open>tools.devServer\<close> on every key path that no higher
  tier shadows. A leaf key that holds a defined value in \<^verbatim>\<open>tools.devServer\<close> holds that
  value in the result. A leaf key that \<^verbatim>\<open>tools.devServer\<close> leaves untouched (neither the key
  nor a key above it is given a value there) and that holds a defined value in
  \<^verbatim>\<open>serverOptions.dev\<close> holds that value in the result. A key path that both leave
  untouched holds what the built-in defaults hold; that is so in particular whenever
  \<^verbatim>\<open>serverOptions.dev\<close> is unset, \<^verbatim>\<open>false\<close> or \<^verbatim>\<open>true\<close>, and with \<^verbatim>\<open>tools.devServer\<close> unset
  as well the result is the defaults object itself. The defaults hold \<open>hot\<close> and
  \<open>liveReload\<close> equal to \<^verbatim>\<open>dev.hmr\<close> when it is set and true otherwise, \<open>watch\<close> true,
  \<open>port\<close> the resolved port, \<open>client.port\<close> its decimal string and \<open>https\<close> equal to
  \<^verbatim>\<open>dev.https\<close>.
\<close>

theorem getDevServerOptions_precedence:
  "(p \<noteq> [] \<and> defined_leaf v \<and> get (toolsOverride cfg) p = v \<longrightarrow>
      get (getDevServerOptions cfg so port) p = v) \<and>
   (leaves_untouched (toolsOverride cfg) p \<and>
    p \<noteq> [] \<and> defined_leaf v \<and> get (so_dev_value so) p = v \<longrightarrow>
      get (getDevServerOptions cfg so port) p = v) \<and>
   (leaves_untouched (toolsOverride cfg) p \<and> leaves_untouched (so_dev_value so) p \<longrightarrow>
      get (getDevServerOptions cfg so port) p = get (builtinDevConfig cfg port) p) \<and>
   (leaves_untouched (toolsOverride cfg) p \<and>
    (so_dev so = None \<or> so_dev so = Some (Bool False) \<or> so_dev so = Some (Bool True)) \<longrightarrow>
      get (getDevServerOptions cfg so port) p = get (builtinDevConfig cfg port) p) \<and>
   (tools_devServer cfg = None \<and>
    (so_dev so = None \<or> so_dev so = Some (Bool False) \<or> so_dev so = Some (Bool True)) \<longrightarrow>
      getDevServerOptions cfg so port = builtinDevConfig cfg port) \<and>
   get (builtinDevConfig cfg port) [''hot'']
     = Bool (case dev cfg of None \<Rightarrow> True
             | Some d \<Rightarrow> (case dev_hmr d of None \<Rightarrow> True | Some b \<Rightarrow> b)) \<and>
   get (builtinDevConfig cfg port) [''liveReload'']
     = Bool (case dev cfg of None \<Rightarrow> True
             | Some d \<Rightarrow> (case dev_hmr d of None \<Rightarrow> True | Some b \<Rightarrow> b)) \<and>
   get (builtinDevConfig cfg port) [''watch''] = Bool True \<and>
   get (builtinDevConfig cfg port) [''port''] = Num (int port) \<and>
   get (builtinDevConfig cfg port) [''client'', ''port''] = Str (toString port) \<and>
   get (builtinDevConfig cfg port) [''https'']
     = (case dev cfg of None \<Rightarrow> Undefined | Some d \<Rightarrow> dev_https d)"
proof (intro conjI impI)
  assume "p \<noteq> [] \<and> defined_leaf v \<and> get (toolsOverride cfg) p = v"
  then show "get (getDevServerOptions cfg so port) p = v"
    by (simp add: getDevServerOptions_layers deepmerge_override_wins)
next
  assume a: "leaves_untouched (toolsOverride cfg) p \<and>
    p \<noteq> [] \<and> defined_leaf v \<and> get (so_dev_value so) p = v"
  then have "serverDevOverride so = so_dev_value so"
    by (auto intro: serverDevOverride_object)
  with a show "get (getDevServerOptions cfg so port) p = v"
    by (simp add: getDevServerOptions_layers deepmerge_leaves_untouched deepmerge_override_wins)
next
  assume "leaves_untouched (toolsOverride cfg) p \<and> leaves_untouched (so_dev_value so) p"
  then show "get (getDevServerOptions cfg so port) p = get (builtinDevConfig cfg port) p"
    by (simp add: getDevServerOptions_layers deepmerge_leaves_untouched
          server_tier_untouched)
next
  assume a: "leaves_untouched (toolsOverride cfg) p \<and>
    (so_dev so = None \<or> so_dev so = Some (Bool False) \<or> so_dev so = Some (Bool True))"
  then have "leaves_untouched (so_dev_value so) p"
    by (auto simp: so_dev_value_def)
  with a show "get (getDevServerOptions cfg so port) p = get (builtinDevConfig cfg port) p"
    by (simp add: getDevServerOptions_layers deepmerge_leaves_untouched
          server_tier_untouched)
next
  assume "tools_devServer cfg = None \<and>
    (so_dev so = None \<or> so_dev so = Some (Bool False) \<or> so_dev so = Some (Bool True))"
  then have t: "tools_devServer cfg = None"
    and d: "serverDevOverride so = Obj [] \<or> serverDevOverride so = Bool True"
    by (auto simp: serverDevOverride_def)
  obtain a where a: "builtinDevConfig cfg port = Obj a"
    by (simp add: builtinDevConfig_def)
  have "deepmerge (Obj a) (serverDevOverride so) = Obj a"
    using d by (auto simp: merge_fields_empty)
  with t a show "getDevServerOptions cfg so port = builtinDevConfig cfg port"
    by (simp add: getDevServerOptions_def mergeChainedOptions_def defaultDevConfig_def)
qed (simp_all add: builtinDevConfig_def hmr_or_true_def)

theorem getDevServerOptions_precedence_witness:
  "get (getDevServerOptions ex_tools_config ex_server_dev_options 3000) [''port''] = Num 1 \<and>
   get (getDevServerOptions ex_tools_config ex_server_dev_options 3000) [''client'', ''host'']
     = Str ''h'' \<and>
   get (getDevServerOptions ex_tools_config ex_server_dev_options 3000) [''host'']
     = Str ''0.0.0.0'' \<and>
   get (getDevServerOptions ex_tools_config ex_server_dev_options 3000) [''client'', ''port'']
     = Str ''3000'' \<and>
   get (getDevServerOptions ex_tools_config ex_server_dev_options 3000) [''watch''] = Bool True \<and>
   get (getDevServerOptions ex_tools_config ex_server_dev_options 3000) [''hot''] = Bool False \<and>
   get (getDevServerOptions ex_tools_config ex_server_dev_true 3000) [''port''] = Num 1 \<and>
   get (getDevServerOptions ex_tools_config ex_server_dev_true 3000) [''watch''] = Bool True \<and>
   get (getDevServerOptions ex_tools_config ex_server_dev_false 3000) [''liveReload'']
     = Bool False \<and>
   getDevServerOptions ex_config ex_server_dev_true 3000 = builtinDevConfig ex_config 3000 \<and>
   getDevServerOptions ex_config ex_server_dev_false 3000 = builtinDevConfig ex_config 3000 \<and>
   getDevServerOptions ex_config ex_server_dev_unset 3000 = builtinDevConfig ex_config 3000"
proof -
  have tools: "toolsOverride ex_tools_config
      = Obj [(''port'', Num 1), (''client'', Obj [(''host'', Str ''h'')])]"
    by (simp add: toolsOverride_def ex_tools_config_def)
  have server: "so_dev_value ex_server_dev_options
      = Obj [(''port'', Num 2), (''host'', Str ''0.0.0.0'')]"
    by (simp add: so_dev_value_def ex_server_dev_options_def)
  have bools: "so_dev ex_server_dev_true = Some (Bool True)"
    "so_dev ex_server_dev_false = Some (Bool False)" "so_dev ex_server_dev_unset = None"
    by (simp_all add: ex_server_dev_true_def ex_server_dev_false_def ex_server_dev_unset_def)
  have dev: "dev ex_tools_config
      = Some \<lparr>dev_port = Some 3000, dev_hmr = Some False, dev_https = Undefined, dev_host = None\<rparr>"
    by (simp add: ex_tools_config_def)
  have no_tools: "tools_devServer ex_config = None"
    by (simp add: ex_config_def)
  have str: "toString 3000 = ''3000''" by code_simp
  have builtin: "get (builtinDevConfig ex_tools_config 3000) [''client'', ''port''] = Str ''3000''"
    by (simp add: builtinDevConfig_def str)
  from tools server bools dev no_tools builtin
    getDevServerOptions_precedence [of "[''port'']" "Num 1" ex_tools_config
      ex_server_dev_options 3000]
    getDevServerOptions_precedence [of "[''client'', ''host'']" "Str ''h''" ex_tools_config
      ex_server_dev_options 3000]
    getDevServerOptions_precedence [of "[''host'']" "Str ''0.0.0.0''" ex_tools_config
      ex_server_dev_options 3000]
    getDevServerOptions_precedence [of "[''client'', ''port'']" "Str ''3000''" ex_tools_config
      ex_server_dev_options 3000]
    getDevServerOptions_precedence [of "[''watch'']" Undefined ex_tools_config
      ex_server_dev_options 3000]
    getDevServerOptions_precedence [of "[''hot'']" Undefined ex_tools_config
      ex_server_dev_options 3000]
    getDevServerOptions_precedence [of "[''port'']" "Num 1" ex_tools_config
      ex_server_dev_true 3000]
    getDevServerOptions_precedence [of "[''watch'']" Undefined ex_tools_config
      ex_server_dev_true 3000]
    getDevServerOptions_precedence [of "[''liveReload'']" Undefined ex_tools_config
      ex_server_dev_false 3000]
    getDevServerOptions_precedence [of "[]" Undefined ex_config ex_server_dev_true 3000]
    getDevServerOptions_precedence [of "[]" Undefined ex_config ex_server_dev_false 3000]
    getDevServerOptions_precedence [of "[]" Undefined ex_config ex_server_dev_unset 3000]
  show ?thesis by (simp add: defined_leaf_def)
qed

text \<open>
  Claim C4 as stated fails on a shadowed key: with \<^verbatim>\<open>dev.https\<close> a key and certificate pair
  and \<^verbatim>\<open>tools.devServer\<close> setting \<^verbatim>\<open>https\<close> to \<^verbatim>\<open>true\<close>, the leaf key \<open>https.key\<close> is absent
  from \<^verbatim>\<open>tools.devServer\<close> and from \<^verbatim>\<open>serverOptions.dev\<close> and present in the defaults, yet the
  result does not carry the default there: its \<open>https\<close> is \<^verbatim>\<open>true\<close>.
\<close>

theorem shadowed_default_counterexample:
  "get (toolsOverride ex_https_config) [''https'', ''key''] = Undefined \<and>
   so_dev ex_server_dev_unset = None \<and>
   get (builtinDevConfig ex_https_config 3000) [''https'', ''key''] = Str ''k'' \<and>
   get (getDevServerOptions ex_https_config ex_server_dev_unset 3000) [''https''] = Bool True \<and>
   get (getDevServerOptions ex_https_config ex_server_dev_unset 3000) [''https'', ''key'']
     = Undefined \<and>
   get (getDevServerOptions ex_https_config ex_server_dev_unset 3000) [''https'', ''key'']
     \<noteq> get (builtinDevConfig ex_https_config 3000) [''https'', ''key'']"
  by (simp add: toolsOverride_def ex_https_config_def ex_server_dev_unset_def
        builtinDevConfig_def getDevServerOptions_def mergeChainedOptions_def
        defaultDevConfig_def serverDevOverride_def hmr_or_true_def)

end
